theory Spec2Isabelle
  imports Complex_Main "HOL-Library.AList" "HOL-Library.Char_ord" "HOL-Library.List_Lexorder"
begin

section \<open>Python values, exceptions and the memory directory\<close>

text \<open>
  The journal code is dynamically typed: \<^verbatim>\<open>json.load\<close> hands back whatever JSON value the
  file holds, and every later \<^verbatim>\<open>.get\<close>, \<^verbatim>\<open>.setdefault\<close>, \<^verbatim>\<open>.append\<close>, subscript and
  truth test is resolved on that value at run time. The model therefore works on the type of
  all values \<^verbatim>\<open>json.load\<close> can return. A Python dict is an association list in insertion
  order; numbers are rationals (the literals \<^verbatim>\<open>NaN\<close> and \<^verbatim>\<open>Infinity\<close>, which Python also
  accepts, are left out); a string is the list of its characters, a \<open>char\<close> standing for
  one code point, so that \<open>length\<close>, \<open>take\<close> and the order on strings are Python's \<^verbatim>\<open>len\<close>,
  slicing and comparison.
\<close>

datatype json =
    JNull
  | JBool bool
  | JNum rat
  | JStr string
  | JArr "json list"
  | JObj "(string \<times> json) list"

text \<open>The exceptions the modelled code can raise.\<close>

datatype error = AttributeError | TypeError | KeyError | IndexError | FileNotFoundError | OSError string

text \<open>
  A file of the memory directory is kept up to what \<^verbatim>\<open>json.load\<close> does with it:
  \<open>Parses v\<close> is any text that \<^verbatim>\<open>json.load\<close> decodes to \<open>v\<close>, and \<open>Unparsable\<close> is any text
  on which opening, decoding or parsing raises (empty, truncated or otherwise malformed).
  \<^verbatim>\<open>json.dump(data, f, ensure_ascii=False, indent=2)\<close> of a value built from decoded JSON and
  strings writes a text that decodes to the same value, so a completed dump leaves
  \<open>Parses data\<close>.
\<close>

datatype content = Parses json | Unparsable

text \<open>
  The file system as far as the code touches it: the directory \<^verbatim>\<open>memory\<close> is missing, or it
  exists and holds files by name. The order of the list is the order in which a directory
  scan yields the files.
\<close>

datatype fs = NoDir | Dir "(string \<times> content) list"

fun files :: "fs \<Rightarrow> (string \<times> content) list" where
  "files NoDir = []"
| "files (Dir fl) = fl"

fun dir_exists :: "fs \<Rightarrow> bool" where
  "dir_exists NoDir = False"
| "dir_exists (Dir fl) = True"

text \<open>
  How a write through \<^verbatim>\<open>open("w")\<close> followed by \<^verbatim>\<open>json.dump\<close> ends is decided by the
  environment. \<^verbatim>\<open>open("w")\<close> creates the file or truncates it to length zero before anything is
  written; \<open>FailsAfterOpen msg\<close> is a run in which an I/O error with message \<open>msg\<close> is
  raised after that point, so that only a proper prefix of the text (possibly nothing) reaches
  the file. The value dumped is always a dict, so no proper prefix of its text parses.
\<close>

datatype write_outcome = Completes | FailsAfterOpen string

definition bindE :: "error + 'a \<Rightarrow> ('a \<Rightarrow> error + 'b) \<Rightarrow> error + 'b" where
  "bindE m f = (case m of Inl e \<Rightarrow> Inl e | Inr x \<Rightarrow> f x)"

subsection \<open>Operations of Python values\<close>

text \<open>Truth value of a Python object, as tested by \<^verbatim>\<open>if x\<close>, \<^verbatim>\<open>x and y\<close>, \<^verbatim>\<open>x or y\<close>.\<close>

fun truthy :: "json \<Rightarrow> bool" where
  "truthy JNull = False"
| "truthy (JBool b) = b"
| "truthy (JNum r) = (r \<noteq> 0)"
| "truthy (JStr s) = (s \<noteq> [])"
| "truthy (JArr xs) = (xs \<noteq> [])"
| "truthy (JObj kvs) = (kvs \<noteq> [])"

text \<open>\<^verbatim>\<open>d.get(k, default)\<close>: only a dict has the method.\<close>

fun py_get :: "json \<Rightarrow> string \<Rightarrow> json \<Rightarrow> error + json" where
  "py_get (JObj kvs) k dflt = Inr (case map_of kvs k of None \<Rightarrow> dflt | Some v \<Rightarrow> v)"
| "py_get _ k dflt = Inl AttributeError"

text \<open>\<^verbatim>\<open>d.setdefault(k, default)\<close>, returning the dict after the call.\<close>

fun py_setdefault :: "json \<Rightarrow> string \<Rightarrow> json \<Rightarrow> error + json" where
  "py_setdefault (JObj kvs) k dflt =
     Inr (case map_of kvs k of None \<Rightarrow> JObj (kvs @ [(k, dflt)]) | Some v \<Rightarrow> JObj kvs)"
| "py_setdefault _ k dflt = Inl AttributeError"

text \<open>\<^verbatim>\<open>x[k]\<close> for a string \<open>k\<close>.\<close>

fun py_getitem :: "json \<Rightarrow> string \<Rightarrow> error + json" where
  "py_getitem (JObj kvs) k = (case map_of kvs k of None \<Rightarrow> Inl KeyError | Some v \<Rightarrow> Inr v)"
| "py_getitem _ k = Inl TypeError"

text \<open>\<^verbatim>\<open>x[k] = v\<close> for a string \<open>k\<close>: a present key keeps its place, a new one goes last.\<close>

fun py_setitem :: "json \<Rightarrow> string \<Rightarrow> json \<Rightarrow> error + json" where
  "py_setitem (JObj kvs) k v = Inr (JObj (AList.update k v kvs))"
| "py_setitem _ k v = Inl TypeError"

text \<open>\<^verbatim>\<open>x.append(v)\<close>: only a list has the method.\<close>

fun py_append :: "json \<Rightarrow> json \<Rightarrow> error + json" where
  "py_append (JArr xs) v = Inr (JArr (xs @ [v]))"
| "py_append _ v = Inl AttributeError"

text \<open>
  \<^verbatim>\<open>x[-n:]\<close> for \<open>n > 0\<close>: the last \<open>n\<close> elements, or all of them when there are fewer
  (the truncating subtraction on \<open>nat\<close> is the clamping of the slice's start at 0).
\<close>

definition last_n :: "nat \<Rightarrow> 'a list \<Rightarrow> 'a list" where
  "last_n n xs = drop (length xs - n) xs"

fun py_slice_last :: "nat \<Rightarrow> json \<Rightarrow> error + json" where
  "py_slice_last n (JArr xs) = Inr (JArr (last_n n xs))"
| "py_slice_last n (JStr s) = Inr (JStr (last_n n s))"
| "py_slice_last n _ = Inl TypeError"

section \<open>The journal store\<close>

subsection \<open>Locations\<close>

text \<open>\<^verbatim>\<open>_memory_dir\<close>: \<^verbatim>\<open>mkdir(parents=True, exist_ok=True)\<close>.\<close>

fun memory_dir :: "fs \<Rightarrow> fs" where
  "memory_dir NoDir = Dir []"
| "memory_dir (Dir fl) = Dir fl"

text \<open>\<^verbatim>\<open>_memory_path_for_thread\<close>: the file name inside the directory, and the directory made.\<close>

definition conversation_file :: "string \<Rightarrow> string" where
  "conversation_file thread_id = ''conversation_'' @ thread_id @ ''.json''"

definition memory_path_for_thread :: "string \<Rightarrow> fs \<Rightarrow> string \<times> fs" where
  "memory_path_for_thread thread_id s = (conversation_file thread_id, memory_dir s)"

definition path_exists :: "fs \<Rightarrow> string \<Rightarrow> bool" where
  "path_exists s p = (map_of (files s) p \<noteq> None)"

subsection \<open>Load\<close>

definition fresh_journal :: json where
  "fresh_journal = JObj [(''thread_id'', JNull), (''messages'', JArr [])]"

text \<open>
  \<^verbatim>\<open>_load_memory\<close> (the same in all variants). The file system is passed through, so that
  what a load leaves behind can be stated.
\<close>

definition load_memory :: "string \<Rightarrow> fs \<Rightarrow> json \<times> fs" where
  "load_memory mem_path s =
     (if path_exists s mem_path then
        (case map_of (files s) mem_path of
           Some (Parses v) \<Rightarrow> (v, s)
         | _ \<Rightarrow> (fresh_journal, s))
      else (fresh_journal, s))"

subsection \<open>Writing a journal back\<close>

text \<open>\<^verbatim>\<open>with mem_path.open("w", encoding="utf-8") as f: json.dump(data, f, ...)\<close>.\<close>

fun write_json :: "string \<Rightarrow> json \<Rightarrow> write_outcome \<Rightarrow> fs \<Rightarrow> (error + unit) \<times> fs" where
  "write_json mem_path data io NoDir = (Inl FileNotFoundError, NoDir)"
| "write_json mem_path data Completes (Dir fl) =
     (Inr (), Dir (AList.update mem_path (Parses data) fl))"
| "write_json mem_path data (FailsAfterOpen msg) (Dir fl) =
     (Inl (OSError msg), Dir (AList.update mem_path Unparsable fl))"

subsection \<open>Append\<close>

text \<open>The entry dict built by \<^verbatim>\<open>_append_memory\<close>; \<open>None\<close> is written as \<^verbatim>\<open>null\<close>.\<close>

definition entry :: "string \<Rightarrow> string \<Rightarrow> string \<Rightarrow> string option \<Rightarrow> json" where
  "entry ts role text message_id =
     JObj [(''ts'', JStr ts), (''role'', JStr role), (''text'', JStr text),
           (''message_id'', (case message_id of None \<Rightarrow> JNull | Some m \<Rightarrow> JStr m))]"

text \<open>
  The in-memory part of \<^verbatim>\<open>_append_memory\<close> in \<^verbatim>\<open>client_python.py\<close> and \<^verbatim>\<open>client_v2.py\<close>:
  \<^verbatim>\<open>data.setdefault("messages", [])\<close>, then \<^verbatim>\<open>data["messages"].append(e)\<close>. The list is mutated
  in place, so the dict sees the longer list.
\<close>

definition with_appended :: "json \<Rightarrow> json \<Rightarrow> error + json" where
  "with_appended data e =
     bindE (py_setdefault data ''messages'' (JArr [])) (\<lambda>data1.
     bindE (py_getitem data1 ''messages'') (\<lambda>msgs.
     bindE (py_append msgs e) (\<lambda>msgs'.
     py_setitem data1 ''messages'' msgs')))"

text \<open>
  The same for \<^verbatim>\<open>streamlit_mcpclientapp.py\<close>, which goes on with
  \<^verbatim>\<open>data["messages"] = data["messages"][-20:]\<close>.
\<close>

definition with_appended_trim :: "json \<Rightarrow> json \<Rightarrow> error + json" where
  "with_appended_trim data e =
     bindE (with_appended data e) (\<lambda>data2.
     bindE (py_getitem data2 ''messages'') (\<lambda>msgs.
     bindE (py_slice_last 20 msgs) (\<lambda>kept.
     py_setitem data2 ''messages'' kept)))"

text \<open>
  \<^verbatim>\<open>_append_memory\<close> of \<^verbatim>\<open>client_python.py\<close> and \<^verbatim>\<open>client_v2.py\<close>. \<open>now\<close> is what
  \<^verbatim>\<open>datetime.utcnow().isoformat()\<close> returns at the call. An exception raised before the file is
  opened leaves the file system as it was.
\<close>

definition append_memory ::
  "string \<Rightarrow> string \<Rightarrow> string \<Rightarrow> string option \<Rightarrow> string \<Rightarrow> write_outcome \<Rightarrow> fs \<Rightarrow> (error + unit) \<times> fs" where
  "append_memory mem_path role text message_id now io s =
     (let (data, s1) = load_memory mem_path s in
      case with_appended data (entry (now @ ''Z'') role text message_id) of
        Inl e \<Rightarrow> (Inl e, s1)
      | Inr data' \<Rightarrow> write_json mem_path data' io s1)"

text \<open>
  \<^verbatim>\<open>_append_memory\<close> of \<^verbatim>\<open>streamlit_mcpclientapp.py\<close>; \<open>now\<close> is what
  \<^verbatim>\<open>datetime.now(timezone.utc).isoformat()\<close> returns.
\<close>

definition append_memory_trim ::
  "string \<Rightarrow> string \<Rightarrow> string \<Rightarrow> string option \<Rightarrow> string \<Rightarrow> write_outcome \<Rightarrow> fs \<Rightarrow> (error + unit) \<times> fs" where
  "append_memory_trim mem_path role text message_id now io s =
     (let (data, s1) = load_memory mem_path s in
      case with_appended_trim data (entry now role text message_id) of
        Inl e \<Rightarrow> (Inl e, s1)
      | Inr data' \<Rightarrow> write_json mem_path data' io s1)"

text \<open>
  A sequence of append calls whose writes complete; a raised exception ends the sequence, as
  it would end the caller.
\<close>

record append_call =
  a_role :: string
  a_text :: string
  a_message_id :: "string option"
  a_now :: string

fun appends :: "string \<Rightarrow> append_call list \<Rightarrow> fs \<Rightarrow> (error + unit) \<times> fs" where
  "appends mem_path [] s = (Inr (), s)"
| "appends mem_path (c # cs) s =
     (case append_memory mem_path (a_role c) (a_text c) (a_message_id c) (a_now c) Completes s of
        (Inl e, s') \<Rightarrow> (Inl e, s')
      | (Inr u, s') \<Rightarrow> appends mem_path cs s')"

fun appends_trim :: "string \<Rightarrow> append_call list \<Rightarrow> fs \<Rightarrow> (error + unit) \<times> fs" where
  "appends_trim mem_path [] s = (Inr (), s)"
| "appends_trim mem_path (c # cs) s =
     (case append_memory_trim mem_path (a_role c) (a_text c) (a_message_id c) (a_now c) Completes s of
        (Inl e, s') \<Rightarrow> (Inl e, s')
      | (Inr u, s') \<Rightarrow> appends_trim mem_path cs s')"

text \<open>The entries the two variants store for a call.\<close>

definition entry_of :: "append_call \<Rightarrow> json" where
  "entry_of c = entry (a_now c @ ''Z'') (a_role c) (a_text c) (a_message_id c)"

definition entry_of_trim :: "append_call \<Rightarrow> json" where
  "entry_of_trim c = entry (a_now c) (a_role c) (a_text c) (a_message_id c)"


subsection \<open>Stamping the thread identifier\<close>

text \<open>
  The block of \<^verbatim>\<open>main\<close> in \<^verbatim>\<open>client_python.py\<close> and \<^verbatim>\<open>client_v2.py\<close> that prepares the
  memory file of the thread: resolve the path, load, \<^verbatim>\<open>mem_data["thread_id"] = thread_id\<close>,
  dump.
\<close>

definition set_thread_id :: "string \<Rightarrow> write_outcome \<Rightarrow> fs \<Rightarrow> (error + unit) \<times> fs" where
  "set_thread_id thread_id io s =
     (let (mem_path, s1) = memory_path_for_thread thread_id s;
          (mem_data, s2) = load_memory mem_path s1 in
      case py_setitem mem_data ''thread_id'' (JStr thread_id) of
        Inl e \<Rightarrow> (Inl e, s2)
      | Inr mem_data' \<Rightarrow> write_json mem_path mem_data' io s2)"

subsection \<open>Delete\<close>

text \<open>What the page shows outside the chat: \<^verbatim>\<open>st.error\<close> and \<^verbatim>\<open>st.warning\<close> boxes.\<close>

datatype ui = StError string | StWarning string

text \<open>
  The Streamlit session state: \<^verbatim>\<open>thread_id\<close> (a key that may be missing), \<^verbatim>\<open>messages\<close>
  (role and content), \<^verbatim>\<open>selected_chat\<close> and \<^verbatim>\<open>log_messages\<close>. A log entry is a kind and a
  text, or the \<^verbatim>\<open>run_steps\<close> entry with the step ids and their tool calls (id, type, name).
\<close>

datatype log_entry =
    Log string string
  | LogRunSteps "(string \<times> (string \<times> string \<times> string) list) list"

record session =
  ss_thread_id :: "string option"
  ss_messages :: "(string \<times> string) list"
  ss_selected_chat :: string
  ss_log_messages :: "log_entry list"

definition start_new_chat :: "session \<Rightarrow> session" where
  "start_new_chat ss =
     ss\<lparr>ss_messages := [], ss_selected_chat := ''--- Start a new chat ---'',
        ss_log_messages := [], ss_thread_id := None\<rparr>"

text \<open>
  \<^verbatim>\<open>Path.unlink\<close>: a missing file is an error; whether the operating system removes an
  existing one is the environment's.
\<close>

datatype unlink_outcome = Removed | Refused string

definition unlink :: "string \<Rightarrow> unlink_outcome \<Rightarrow> fs \<Rightarrow> (error + unit) \<times> fs" where
  "unlink mem_path uo s =
     (if \<not> path_exists s mem_path then (Inl FileNotFoundError, s)
      else (case uo of
              Removed \<Rightarrow> (Inr (), Dir (AList.delete mem_path (files s)))
            | Refused msg \<Rightarrow> (Inl (OSError msg), s)))"

fun str_of_error :: "error \<Rightarrow> string" where
  "str_of_error (OSError msg) = msg"
| "str_of_error e = []"

text \<open>
  \<^verbatim>\<open>delete_thread\<close> of \<^verbatim>\<open>streamlit_mcpclientapp.py\<close>. The first component is what the call
  raises to its caller; the \<^verbatim>\<open>try\<close> block turns an exception of the body into an
  \<^verbatim>\<open>st.error\<close> box.
\<close>

definition delete_thread ::
  "string \<Rightarrow> unlink_outcome \<Rightarrow> fs \<times> session \<Rightarrow> (error + unit) \<times> ui list \<times> fs \<times> session" where
  "delete_thread thread_id uo st =
     (let (s, ss) = st;
          (mem_path, s1) = memory_path_for_thread thread_id s in
      case (if path_exists s1 mem_path then unlink mem_path uo s1 else (Inr (), s1)) of
        (Inl e, s2) \<Rightarrow> (Inr (), [StError (''Error deleting thread: '' @ str_of_error e)], s2, ss)
      | (Inr u, s2) \<Rightarrow>
          (Inr (), [], s2, if ss_thread_id ss = Some thread_id then start_new_chat ss else ss))"

section \<open>The thread directory\<close>

text \<open>\<^verbatim>\<open>glob("conversation_*.json")\<close> on the memory directory, in scan order.\<close>

definition is_conversation_file :: "string \<Rightarrow> bool" where
  "is_conversation_file n =
     (18 \<le> length n \<and> take 13 n = ''conversation_'' \<and> drop (length n - 5) n = ''.json'')"

definition glob_conversations :: "fs \<Rightarrow> string list" where
  "glob_conversations s = filter is_conversation_file (map fst (files s))"

subsection \<open>The listing of the Streamlit app\<close>

text \<open>Iterating a value with \<^verbatim>\<open>for\<close>: a list yields its elements, a string its characters,
  a dict its keys; nothing else is iterable.\<close>

fun py_iter :: "json \<Rightarrow> error + json list" where
  "py_iter (JArr xs) = Inr xs"
| "py_iter (JStr s) = Inr (map (\<lambda>c. JStr [c]) s)"
| "py_iter (JObj kvs) = Inr (map (\<lambda>kv. JStr (fst kv)) kvs)"
| "py_iter _ = Inl TypeError"

text \<open>
  \<^verbatim>\<open>next((msg["text"] for msg in msgs if msg["role"] == "user"), default)\<close>: the generator
  stops at the first entry whose role is \<^verbatim>\<open>"user"\<close>; \<open>None\<close> is the default being taken.
\<close>

fun first_user_text :: "json list \<Rightarrow> error + json option" where
  "first_user_text [] = Inr None"
| "first_user_text (msg # msgs) =
     bindE (py_getitem msg ''role'') (\<lambda>r.
       if r = JStr ''user'' then bindE (py_getitem msg ''text'') (\<lambda>t. Inr (Some t))
       else first_user_text msgs)"

text \<open>
  Keys of the \<^verbatim>\<open>threads\<close> dict. Lists and dicts are unhashable; \<^verbatim>\<open>True\<close>, \<^verbatim>\<open>1\<close> and
  \<^verbatim>\<open>1.0\<close> are one key.
\<close>

fun hashable :: "json \<Rightarrow> bool" where
  "hashable (JArr xs) = False"
| "hashable (JObj kvs) = False"
| "hashable _ = True"

fun key_num :: "json \<Rightarrow> rat option" where
  "key_num (JBool b) = Some (if b then 1 else 0)"
| "key_num (JNum r) = Some r"
| "key_num _ = None"

definition py_key_eq :: "json \<Rightarrow> json \<Rightarrow> bool" where
  "py_key_eq a b =
     (case (key_num a, key_num b) of
        (Some x, Some y) \<Rightarrow> x = y
      | (None, None) \<Rightarrow> a = b
      | _ \<Rightarrow> False)"

text \<open>\<^verbatim>\<open>threads[k] = v\<close>: a key already present keeps its place and its key object.\<close>

fun threads_set :: "json \<Rightarrow> json \<Rightarrow> (json \<times> json) list \<Rightarrow> (json \<times> json) list" where
  "threads_set k v [] = [(k, v)]"
| "threads_set k v (kv # kvs) =
     (if py_key_eq (fst kv) k then (fst kv, v) # kvs else kv # threads_set k v kvs)"

text \<open>
  The body of the loop of \<^verbatim>\<open>get_all_threads\<close> up to the assignment: \<open>None\<close> when the file is
  skipped, otherwise the key and the label.
\<close>

definition thread_label :: "json \<Rightarrow> error + (json \<times> json) option" where
  "thread_label mem_data =
     bindE (py_get mem_data ''thread_id'' JNull) (\<lambda>thread_id.
       if truthy thread_id then
         bindE (py_get mem_data ''messages'' JNull) (\<lambda>m.
           if truthy m then
             bindE (py_getitem mem_data ''messages'') (\<lambda>msgs.
             bindE (py_iter msgs) (\<lambda>xs.
             bindE (first_user_text xs) (\<lambda>r.
               Inr (Some (thread_id, (case r of None \<Rightarrow> JStr ''Chat'' | Some t \<Rightarrow> t))))))
           else Inr None)
       else Inr None)"

fun threads_loop ::
  "string list \<Rightarrow> (json \<times> json) list \<Rightarrow> fs \<Rightarrow> (error + (json \<times> json) list) \<times> fs" where
  "threads_loop [] threads s = (Inr threads, s)"
| "threads_loop (mem_file # rest) threads s =
     (let (mem_data, s1) = load_memory mem_file s in
      case thread_label mem_data of
        Inl e \<Rightarrow> (Inl e, s1)
      | Inr None \<Rightarrow> threads_loop rest threads s1
      | Inr (Some (thread_id, label)) \<Rightarrow>
          if hashable thread_id then threads_loop rest (threads_set thread_id label threads) s1
          else (Inl TypeError, s1))"

text \<open>\<^verbatim>\<open>get_all_threads\<close>: the files are visited by name, largest first.\<close>

definition get_all_threads :: "fs \<Rightarrow> (error + (json \<times> json) list) \<times> fs" where
  "get_all_threads s =
     (let s0 = memory_dir s in threads_loop (rev (sort (glob_conversations s0))) [] s0)"

subsection \<open>The listing of the command-line client\<close>

text \<open>\<^verbatim>\<open>x[0]\<close> and \<^verbatim>\<open>x[-1]\<close>. A dict decoded from JSON has string keys only.\<close>

fun py_first :: "json \<Rightarrow> error + json" where
  "py_first (JArr xs) = (case xs of [] \<Rightarrow> Inl IndexError | x # _ \<Rightarrow> Inr x)"
| "py_first (JStr s) = (case s of [] \<Rightarrow> Inl IndexError | c # _ \<Rightarrow> Inr (JStr [c]))"
| "py_first (JObj kvs) = Inl KeyError"
| "py_first _ = Inl TypeError"

fun py_last :: "json \<Rightarrow> error + json" where
  "py_last (JArr xs) = (if xs = [] then Inl IndexError else Inr (last xs))"
| "py_last (JStr s) = (if s = [] then Inl IndexError else Inr (JStr [last s]))"
| "py_last (JObj kvs) = Inl KeyError"
| "py_last _ = Inl TypeError"

fun py_len :: "json \<Rightarrow> error + nat" where
  "py_len (JStr s) = Inr (length s)"
| "py_len (JArr xs) = Inr (length xs)"
| "py_len (JObj kvs) = Inr (length kvs)"
| "py_len _ = Inl TypeError"

text \<open>\<^verbatim>\<open>x[:57] + "..."\<close>: only a string can be sliced and then joined with a string (a list
  fails at the join, a dict at the slice).\<close>

fun py_snippet :: "json \<Rightarrow> error + json" where
  "py_snippet (JStr s) = Inr (JStr (take 57 s @ ''...''))"
| "py_snippet _ = Inl TypeError"

text \<open>An item of the listing: thread id, path, time of the first entry, role of the last
  entry, snippet of its text.\<close>

type_synonym saved_item = "json \<times> string \<times> json \<times> json \<times> json"

text \<open>The body of the loop of \<^verbatim>\<open>_list_saved_threads\<close>; \<open>None\<close> when nothing is appended.\<close>

definition saved_item :: "string \<Rightarrow> json \<Rightarrow> error + saved_item option" where
  "saved_item p data =
     bindE (py_get data ''thread_id'' JNull) (\<lambda>tid.
     bindE (py_get data ''messages'' (JArr [])) (\<lambda>msgs.
     bindE (if truthy msgs then bindE (py_first msgs) (\<lambda>m. py_getitem m ''ts'') else Inr JNull)
       (\<lambda>created_ts.
     bindE (if truthy msgs then
              bindE (py_last msgs) (\<lambda>m.
              bindE (py_getitem m ''role'') (\<lambda>r.
              bindE (py_getitem m ''text'') (\<lambda>t. Inr (r, t))))
            else Inr (JNull, JNull)) (\<lambda>lst.
     bindE (if truthy (snd lst) then
              bindE (py_len (snd lst)) (\<lambda>n. if 60 < n then py_snippet (snd lst) else Inr (snd lst))
            else Inr (snd lst)) (\<lambda>last_text_snippet.
     Inr (if truthy tid then Some (tid, p, created_ts, fst lst, last_text_snippet) else None))))))"

fun saved_items_loop :: "string list \<Rightarrow> saved_item list \<Rightarrow> fs \<Rightarrow> (error + saved_item list) \<times> fs" where
  "saved_items_loop [] items s = (Inr items, s)"
| "saved_items_loop (p # rest) items s =
     (let (data, s1) = load_memory p s in
      case saved_item p data of
        Inl e \<Rightarrow> (Inl e, s1)
      | Inr None \<Rightarrow> saved_items_loop rest items s1
      | Inr (Some it) \<Rightarrow> saved_items_loop rest (items @ [it]) s1)"

text \<open>
  \<^verbatim>\<open>items.sort(key=lambda x: x[2] or "", reverse=True)\<close>. The key of an item is the time of its
  first entry, or the empty string. Strings are compared by code point; the sort is stable
  and descending, which is a reversal, the stable ascending sort, and a reversal. With fewer
  than two items nothing is compared. Keys that are not strings are outside the model: it
  answers \<open>TypeError\<close>, which is what Python raises when such a key meets a string.
\<close>

definition string_key :: "saved_item \<Rightarrow> string option" where
  "string_key it =
     (let c = fst (snd (snd it)) in
      if truthy c then (case c of JStr t \<Rightarrow> Some t | _ \<Rightarrow> None) else Some [])"

definition sort_items :: "saved_item list \<Rightarrow> error + saved_item list" where
  "sort_items items =
     (if length items < 2 then Inr items
      else if list_all (\<lambda>it. string_key it \<noteq> None) items then
        Inr (rev (sort_key (\<lambda>it. the (string_key it)) (rev items)))
      else Inl TypeError)"

definition list_saved_threads :: "fs \<Rightarrow> (error + saved_item list) \<times> fs" where
  "list_saved_threads s =
     (let s0 = memory_dir s in
      case saved_items_loop (glob_conversations s0) [] s0 of
        (Inl e, s1) \<Rightarrow> (Inl e, s1)
      | (Inr items, s1) \<Rightarrow> (sort_items items, s1))"

section \<open>One user turn\<close>

text \<open>
  The remote agent service is outside the program. Of a message of a thread the code reads
  the id, the role and the values of the text segments; a thread is the list of its messages,
  oldest first, and \<^verbatim>\<open>messages.list(order=DESCENDING)\<close> is its reversal.
\<close>

record remote_msg =
  m_id :: string
  m_role :: string
  m_text_messages :: "string list"

text \<open>
  What \<^verbatim>\<open>runs.create_and_process\<close> returns and does: the run record, the messages the run
  added to the thread, and the steps with the tool calls they recorded.
\<close>

record run =
  run_id :: string
  run_status :: string
  run_last_error :: string
  run_new_messages :: "remote_msg list"
  run_steps :: "(string \<times> (string \<times> string \<times> string) list) list"

text \<open>
  What the environment answers during one turn: the id of a thread created on demand, the id
  given to the user's message, the run, the clock at the two appends, how the two writes end,
  and the exception text of a failed agent deletion.
\<close>

record turn_env =
  e_new_thread_id :: string
  e_user_msg_id :: string
  e_run :: run
  e_now1 :: string
  e_now2 :: string
  e_io1 :: write_outcome
  e_io2 :: write_outcome
  e_agent_delete_error :: "string option"

text \<open>
  The value \<^verbatim>\<open>_print_latest_assistant\<close> returns, on the messages newest first: the last text
  segment of the first assistant message that has one, else the empty string.
\<close>

fun print_latest_assistant :: "remote_msg list \<Rightarrow> string" where
  "print_latest_assistant [] = []"
| "print_latest_assistant (m # msgs) =
     (if m_role m = ''assistant'' \<and> m_text_messages m \<noteq> [] then last (m_text_messages m)
      else print_latest_assistant msgs)"

text \<open>The id of the first assistant message, newest first, or \<^verbatim>\<open>None\<close>.\<close>

fun last_assistant_id :: "remote_msg list \<Rightarrow> string option" where
  "last_assistant_id [] = None"
| "last_assistant_id (m # msgs) =
     (if m_role m = ''assistant'' then Some (m_id m) else last_assistant_id msgs)"

definition user_message :: "string \<Rightarrow> string \<Rightarrow> remote_msg" where
  "user_message mid content = \<lparr>m_id = mid, m_role = ''user'', m_text_messages = [content]\<rparr>"

subsection \<open>The command-line client\<close>

text \<open>
  The body of the \<^verbatim>\<open>while\<close> loop of \<^verbatim>\<open>main\<close> in \<^verbatim>\<open>client_python.py\<close>, from posting the
  user's message on, for an input that is neither empty nor an exit command. The state is
  the remote thread and the file system; of what is printed, the lines about the run's
  status are kept, without the blank lines. An exception of an append leaves the loop.
\<close>

definition cli_turn ::
  "string \<Rightarrow> string \<Rightarrow> turn_env \<Rightarrow> remote_msg list \<times> fs
     \<Rightarrow> (error + unit) \<times> string list \<times> remote_msg list \<times> fs" where
  "cli_turn mem_path user_input env st =
     (let (thread, s) = st;
          thread1 = thread @ [user_message (e_user_msg_id env) user_input] in
      case append_memory mem_path ''user'' user_input (Some (e_user_msg_id env))
             (e_now1 env) (e_io1 env) s of
        (Inl e, s1) \<Rightarrow> (Inl e, [], thread1, s1)
      | (Inr u, s1) \<Rightarrow>
          (let r = e_run env;
               thread2 = thread1 @ run_new_messages r;
               printed = [''Run ID: '' @ run_id r,
                          ''Run completed with status: '' @ run_status r] @
                         (if run_status r = ''failed'' then [''Run failed: '' @ run_last_error r]
                          else []);
               assistant_text = print_latest_assistant (rev thread2) in
           if assistant_text \<noteq> [] then
             (case append_memory mem_path ''assistant'' assistant_text
                     (last_assistant_id (rev thread2)) (e_now2 env) (e_io2 env) s1 of
                (Inl e, s2) \<Rightarrow> (Inl e, printed, thread2, s2)
              | (Inr u, s2) \<Rightarrow> (Inr (), printed, thread2, s2))
           else (Inr (), printed, thread2, s1)))"

subsection \<open>The Streamlit app\<close>

definition add_log :: "log_entry list \<Rightarrow> session \<Rightarrow> session" where
  "add_log es ss = ss\<lparr>ss_log_messages := ss_log_messages ss @ es\<rparr>"

text \<open>
  The handler of \<^verbatim>\<open>st.chat_input\<close> in \<^verbatim>\<open>streamlit_mcpclientapp.py\<close>, up to \<^verbatim>\<open>st.rerun()\<close>.
  \<open>thread\<close> is the remote thread of the session's thread id; a thread created on demand is
  empty. The pictographs in the log texts are left out.
\<close>

definition streamlit_turn ::
  "string \<Rightarrow> turn_env \<Rightarrow> remote_msg list \<times> fs \<times> session
     \<Rightarrow> (error + unit) \<times> ui list \<times> remote_msg list \<times> fs \<times> session" where
  "streamlit_turn prompt env st =
     (let (thread, s, ss) = st;
          ss1 = ss\<lparr>ss_log_messages := [], ss_messages := ss_messages ss @ [(''user'', prompt)]\<rparr>;
          ss2 = (if ss_thread_id ss1 = None then
                   add_log [Log ''info'' ''Creating a new thread...'',
                            Log ''success'' (''New thread: `'' @ e_new_thread_id env @ ''`'')]
                     (ss1\<lparr>ss_thread_id := Some (e_new_thread_id env)\<rparr>)
                 else ss1);
          thread0 = (if ss_thread_id ss1 = None then [] else thread);
          thread_id = (case ss_thread_id ss2 of Some t \<Rightarrow> t | None \<Rightarrow> e_new_thread_id env);
          (mem_path, s0) = memory_path_for_thread thread_id s;
          ss3 = add_log [Log ''info'' ''Creating agent...'',
                         Log ''success'' ''Agent created: `my-mcp-agent`'',
                         Log ''info'' ''Sending message...''] ss2;
          thread1 = thread0 @ [user_message (e_user_msg_id env) prompt] in
      case append_memory_trim mem_path ''user'' prompt (Some (e_user_msg_id env))
             (e_now1 env) (e_io1 env) s0 of
        (Inl e, s1) \<Rightarrow> (Inl e, [], thread1, s1, ss3)
      | (Inr u, s1) \<Rightarrow>
          (let ss4 = add_log [Log ''success'' ''Message sent.'', Log ''info'' ''Starting run...''] ss3;
               r = e_run env;
               thread2 = thread1 @ run_new_messages r;
               closing = (\<lambda>shown s' ss'.
                  (let ss6 = add_log [Log ''info'' ''Deleting agent...''] ss' in
                   case e_agent_delete_error env of
                     None \<Rightarrow> (Inr (), shown, thread2, s', add_log [Log ''success'' ''Agent deleted.''] ss6)
                   | Some msg \<Rightarrow>
                       (Inr (), shown @ [StWarning (''Could not delete agent: '' @ msg)], thread2, s',
                        add_log [Log ''warning'' (''Could not delete agent: '' @ msg)] ss6))) in
           if run_status r = ''failed'' then
             closing [StError (''Run failed: '' @ run_last_error r)] s1
               (add_log [Log ''error'' (''Run `'' @ run_id r @ ''` failed.'')] ss4)
           else
             (let ss5 = add_log
                    [Log ''success'' (''Run `'' @ run_id r @ ''`: **'' @ run_status r @ ''**''),
                     Log ''subheader'' ''Run Steps & Tool Calls'',
                     LogRunSteps (run_steps r),
                     Log ''info'' ''...Retrieving assistant's response.''] ss4;
                  assistant_text = print_latest_assistant (rev thread2);
                  found = list_ex (\<lambda>m. m_role m = ''assistant'' \<and> m_text_messages m \<noteq> []) thread2;
                  ss5a = add_log [if found then Log ''success'' ''Response received.''
                                  else Log ''warning'' ''No assistant response found.''] ss5;
                  ss5b = ss5a\<lparr>ss_messages := ss_messages ss5a @ [(''assistant'', assistant_text)]\<rparr> in
              case append_memory_trim mem_path ''assistant'' assistant_text
                     (last_assistant_id (rev thread2)) (e_now2 env) (e_io2 env) s1 of
                (Inl e, s2) \<Rightarrow> (Inl e, [], thread2, s2, ss5b)
              | (Inr u, s2) \<Rightarrow> closing [] s2 ss5b)))"

section \<open>Sequences of read operations\<close>

text \<open>
  Any number of loads and listings, one after the other. Each is run for what it does to the
  file system; what it returns or raises is dropped.
\<close>

datatype read_op = Load string | ListThreads | ListSavedThreads

fun run_reads :: "read_op list \<Rightarrow> fs \<Rightarrow> fs" where
  "run_reads [] s = s"
| "run_reads (Load p # ops) s = run_reads ops (snd (load_memory p s))"
| "run_reads (ListThreads # ops) s = run_reads ops (snd (get_all_threads s))"
| "run_reads (ListSavedThreads # ops) s = run_reads ops (snd (list_saved_threads s))"

section \<open>Journals as the program writes them\<close>

text \<open>
  The shape of the values the program itself dumps: an entry is a dict whose \<open>ts\<close>, \<open>role\<close>
  and \<open>text\<close> are strings; a journal is a dict whose \<open>thread_id\<close> is a string or null and
  whose \<open>messages\<close> is a list of entries. A store is well formed when every file the
  listings visit is unparsable or holds a journal.
\<close>

fun is_str :: "json option \<Rightarrow> bool" where
  "is_str (Some (JStr t)) = True"
| "is_str _ = False"

fun wf_entry :: "json \<Rightarrow> bool" where
  "wf_entry (JObj kvs) =
     (is_str (map_of kvs ''ts'') \<and> is_str (map_of kvs ''role'') \<and> is_str (map_of kvs ''text''))"
| "wf_entry _ = False"

fun wf_journal :: "json \<Rightarrow> bool" where
  "wf_journal (JObj kvs) =
     ((case map_of kvs ''thread_id'' of Some (JStr t) \<Rightarrow> True | Some JNull \<Rightarrow> True | _ \<Rightarrow> False) \<and>
      (case map_of kvs ''messages'' of Some (JArr ms) \<Rightarrow> list_all wf_entry ms | _ \<Rightarrow> False))"
| "wf_journal _ = False"

fun wf_content :: "content \<Rightarrow> bool" where
  "wf_content Unparsable = True"
| "wf_content (Parses v) = wf_journal v"

definition wf_store :: "fs \<Rightarrow> bool" where
  "wf_store s = list_all (\<lambda>nc. is_conversation_file (fst nc) \<longrightarrow> wf_content (snd nc)) (files s)"

text \<open>
  What the listings are to show, read off a journal directly: its thread id, its messages,
  whether it is listed by the Streamlit app (thread id present, messages not empty), the
  label (text of the first user entry, or the placeholder), and the item of the command-line
  listing (time of the first entry, role of the last one, its text cut to 57 characters and
  an ellipsis when longer than 60).
\<close>

fun field :: "string \<Rightarrow> json \<Rightarrow> json" where
  "field k (JObj kvs) = (case map_of kvs k of None \<Rightarrow> JNull | Some v \<Rightarrow> v)"
| "field k _ = JNull"

definition journal_thread_id :: "json \<Rightarrow> json" where
  "journal_thread_id j = field ''thread_id'' j"

definition journal_messages :: "json \<Rightarrow> json list" where
  "journal_messages j = (case field ''messages'' j of JArr ms \<Rightarrow> ms | _ \<Rightarrow> [])"

definition listed :: "json \<Rightarrow> bool" where
  "listed j = (truthy (journal_thread_id j) \<and> journal_messages j \<noteq> [])"

definition first_user_label :: "json \<Rightarrow> json" where
  "first_user_label j =
     (case find (\<lambda>e. field ''role'' e = JStr ''user'') (journal_messages j) of
        None \<Rightarrow> JStr ''Chat''
      | Some e \<Rightarrow> field ''text'' e)"

fun snippet :: "json \<Rightarrow> json" where
  "snippet (JStr t) = JStr (if 60 < length t then take 57 t @ ''...'' else t)"
| "snippet v = v"

definition item_of :: "string \<Rightarrow> json \<Rightarrow> saved_item" where
  "item_of n j =
     (let ms = journal_messages j in
      (journal_thread_id j, n,
       (if ms = [] then JNull else field ''ts'' (hd ms)),
       (if ms = [] then JNull else field ''role'' (last ms)),
       (if ms = [] then JNull else snippet (field ''text'' (last ms)))))"

section \<open>Auxiliary facts\<close>

lemma bindE_simps [simp]: "bindE (Inl e) f = Inl e" "bindE (Inr x) f = f x"
  by (simp_all add: bindE_def)

lemma last_n_absorb: "last_n n (last_n n xs @ ys) = last_n n (xs @ ys)"
  by (cases "length xs \<le> n") (simp_all add: last_n_def add.commute)

lemma length_last_n: "length (last_n n xs) = min (length xs) n"
  by (simp add: last_n_def)

lemma load_after_write:
  "fst (load_memory p (Dir (AList.update p (Parses d) fl))) = d"
  by (simp add: load_memory_def path_exists_def update_conv')

lemma with_appended_dict:
  assumes "py_setdefault data ''messages'' (JArr []) = Inr (JObj kvs)"
      and "map_of kvs ''messages'' = Some (JArr old)"
  shows "with_appended data e = Inr (JObj (AList.update ''messages'' (JArr (old @ [e])) kvs))"
  using assms by (simp add: with_appended_def)

lemma with_appended_trim_dict:
  assumes "py_setdefault data ''messages'' (JArr []) = Inr (JObj kvs)"
      and "map_of kvs ''messages'' = Some (JArr old)"
  shows "with_appended_trim data e =
           Inr (JObj (AList.update ''messages'' (JArr (last_n 20 (old @ [e]))) kvs))"
  using assms by (simp add: with_appended_trim_def with_appended_dict update_conv')

lemma load_memory_snd [simp]: "snd (load_memory p s) = s"
  by (simp add: load_memory_def split: option.splits content.splits)

lemma append_memory_step:
  assumes "py_setdefault (fst (load_memory p (Dir fl))) ''messages'' (JArr []) = Inr (JObj kvs)"
      and "map_of kvs ''messages'' = Some (JArr old)"
  shows "append_memory p r t m now Completes (Dir fl) =
           (Inr (), Dir (AList.update p
              (Parses (JObj (AList.update ''messages'' (JArr (old @ [entry (now @ ''Z'') r t m])) kvs))) fl))"
  using assms
  by (simp add: append_memory_def with_appended_dict split_beta)

lemma append_memory_trim_step:
  assumes "py_setdefault (fst (load_memory p (Dir fl))) ''messages'' (JArr []) = Inr (JObj kvs)"
      and "map_of kvs ''messages'' = Some (JArr old)"
  shows "append_memory_trim p r t m now Completes (Dir fl) =
           (Inr (), Dir (AList.update p
              (Parses (JObj (AList.update ''messages'' (JArr (last_n 20 (old @ [entry now r t m]))) kvs))) fl))"
  using assms
  by (simp add: append_memory_trim_def with_appended_trim_dict split_beta)

lemma appends_run:
  assumes "fst (load_memory p (Dir fl)) = JObj kvs"
      and "map_of kvs ''messages'' = Some (JArr old)"
  shows "fst (appends p cs (Dir fl)) = Inr () \<and>
         dir_exists (snd (appends p cs (Dir fl))) \<and>
         fst (load_memory p (snd (appends p cs (Dir fl)))) =
           JObj (AList.update ''messages'' (JArr (old @ map entry_of cs)) kvs)"
  using assms
proof (induction cs arbitrary: fl kvs old)
  case Nil
  then show ?case by (simp add: update_triv)
next
  case (Cons c cs)
  let ?e = "entry (a_now c @ ''Z'') (a_role c) (a_text c) (a_message_id c)"
  let ?kvs1 = "AList.update ''messages'' (JArr (old @ [?e])) kvs"
  let ?fl1 = "AList.update p (Parses (JObj ?kvs1)) fl"
  have sd: "py_setdefault (fst (load_memory p (Dir fl))) ''messages'' (JArr []) = Inr (JObj kvs)"
    using Cons.prems by simp
  have step: "append_memory p (a_role c) (a_text c) (a_message_id c) (a_now c) Completes (Dir fl)
                = (Inr (), Dir ?fl1)"
    by (rule append_memory_step [OF sd Cons.prems(2)])
  have l1: "fst (load_memory p (Dir ?fl1)) = JObj ?kvs1"
    by (rule load_after_write)
  have m1: "map_of ?kvs1 ''messages'' = Some (JArr (old @ [?e]))"
    by (simp add: update_conv')
  from Cons.IH [OF l1 m1] show ?case
    by (simp add: step entry_of_def)
qed

lemma appends_trim_run:
  assumes "fst (load_memory p (Dir fl)) = JObj kvs"
      and "map_of kvs ''messages'' = Some (JArr old)"
  shows "fst (appends_trim p cs (Dir fl)) = Inr () \<and>
         dir_exists (snd (appends_trim p cs (Dir fl))) \<and>
         fst (load_memory p (snd (appends_trim p cs (Dir fl)))) =
           JObj (AList.update ''messages''
                  (JArr (if cs = [] then old else last_n 20 (old @ map entry_of_trim cs))) kvs)"
  using assms
proof (induction cs arbitrary: fl kvs old)
  case Nil
  then show ?case by (simp add: update_triv)
next
  case (Cons c cs)
  let ?e = "entry (a_now c) (a_role c) (a_text c) (a_message_id c)"
  let ?kvs1 = "AList.update ''messages'' (JArr (last_n 20 (old @ [?e]))) kvs"
  let ?fl1 = "AList.update p (Parses (JObj ?kvs1)) fl"
  have sd: "py_setdefault (fst (load_memory p (Dir fl))) ''messages'' (JArr []) = Inr (JObj kvs)"
    using Cons.prems by simp
  have step: "append_memory_trim p (a_role c) (a_text c) (a_message_id c) (a_now c) Completes (Dir fl)
                = (Inr (), Dir ?fl1)"
    by (rule append_memory_trim_step [OF sd Cons.prems(2)])
  have l1: "fst (load_memory p (Dir ?fl1)) = JObj ?kvs1"
    by (rule load_after_write)
  have m1: "map_of ?kvs1 ''messages'' = Some (JArr (last_n 20 (old @ [?e])))"
    by (simp add: update_conv')
  have ab: "last_n 20 (last_n 20 (old @ [?e]) @ map entry_of_trim cs)
              = last_n 20 (old @ ?e # map entry_of_trim cs)"
    using last_n_absorb [of 20 "old @ [?e]" "map entry_of_trim cs"] by simp
  from Cons.IH [OF l1 m1] show ?case
    by (simp add: step entry_of_trim_def ab)
qed

lemma files_memory_dir [simp]: "files (memory_dir s) = files s"
  by (cases s) simp_all

lemma dir_exists_memory_dir [simp]: "dir_exists (memory_dir s)"
  by (cases s) simp_all

lemma memory_dir_Dir: "memory_dir s = Dir (files s)"
  by (cases s) simp_all

lemma load_memory_fst_files:
  "files s = files s' \<Longrightarrow> fst (load_memory p s) = fst (load_memory p s')"
  by (simp add: load_memory_def path_exists_def split: option.splits content.splits)

lemma threads_loop_snd [simp]: "snd (threads_loop ns acc s) = s"
  by (induction ns arbitrary: acc)
     (simp_all add: split_beta split: sum.splits option.splits prod.splits)

lemma saved_items_loop_snd [simp]: "snd (saved_items_loop ns acc s) = s"
  by (induction ns arbitrary: acc)
     (simp_all add: split_beta split: sum.splits option.splits prod.splits)

lemma get_all_threads_snd: "snd (get_all_threads s) = memory_dir s"
  by (simp add: get_all_threads_def Let_def)

lemma list_saved_threads_snd: "snd (list_saved_threads s) = memory_dir s"
proof -
  have "snd (saved_items_loop (glob_conversations (memory_dir s)) [] (memory_dir s)) = memory_dir s"
    by simp
  then show ?thesis
    by (cases "saved_items_loop (glob_conversations (memory_dir s)) [] (memory_dir s)")
       (simp add: list_saved_threads_def Let_def split: sum.splits)
qed

lemma set_thread_id_dict:
  assumes "fst (load_memory (conversation_file tid) s) = JObj kvs"
  shows "set_thread_id tid Completes s =
           (Inr (), Dir (AList.update (conversation_file tid)
                          (Parses (JObj (AList.update ''thread_id'' (JStr tid) kvs))) (files s)))"
proof -
  have "fst (load_memory (conversation_file tid) (memory_dir s)) = JObj kvs"
    using assms load_memory_fst_files [of "memory_dir s" s] by simp
  then show ?thesis
    by (simp add: set_thread_id_def memory_path_for_thread_def split_beta memory_dir_Dir)
qed

lemma set_thread_id_not_dict:
  assumes "\<forall>kvs. fst (load_memory (conversation_file tid) s) \<noteq> JObj kvs"
  shows "set_thread_id tid io s = (Inl TypeError, memory_dir s)"
proof -
  have eq: "fst (load_memory (conversation_file tid) (memory_dir s)) =
        fst (load_memory (conversation_file tid) s)"
    using load_memory_fst_files [of "memory_dir s" s] by simp
  have "py_setitem (fst (load_memory (conversation_file tid) s)) ''thread_id'' (JStr tid)
          = Inl TypeError"
    using assms by (cases "fst (load_memory (conversation_file tid) s)") simp_all
  then show ?thesis
    by (simp add: set_thread_id_def memory_path_for_thread_def split_beta eq)
qed

lemma set_thread_id_messages:
  "py_getitem (fst (load_memory (conversation_file tid)
                     (snd (set_thread_id tid Completes s)))) ''messages'' =
   py_getitem (fst (load_memory (conversation_file tid) s)) ''messages''"
proof (cases "\<exists>kvs. fst (load_memory (conversation_file tid) s) = JObj kvs")
  case True
  then obtain kvs where k: "fst (load_memory (conversation_file tid) s) = JObj kvs"
    by blast
  show ?thesis
    by (simp add: set_thread_id_dict [OF k] load_after_write k update_conv')
next
  case False
  then have n: "\<forall>kvs. fst (load_memory (conversation_file tid) s) \<noteq> JObj kvs"
    by blast
  have "fst (load_memory (conversation_file tid) (memory_dir s)) =
        fst (load_memory (conversation_file tid) s)"
    using load_memory_fst_files [of "memory_dir s" s] by simp
  then show ?thesis
    by (simp add: set_thread_id_not_dict [OF n])
qed

lemma delete_thread_cases:
  "delete_thread tid uo (s, ss) =
     (if path_exists s (conversation_file tid) then
        (case uo of
           Removed \<Rightarrow> (Inr (), [], Dir (AList.delete (conversation_file tid) (files s)),
                       if ss_thread_id ss = Some tid then start_new_chat ss else ss)
         | Refused msg \<Rightarrow> (Inr (), [StError (''Error deleting thread: '' @ msg)], memory_dir s, ss))
      else (Inr (), [], memory_dir s, if ss_thread_id ss = Some tid then start_new_chat ss else ss))"
  by (simp add: delete_thread_def memory_path_for_thread_def unlink_def path_exists_def
        split: unlink_outcome.splits)

lemma is_str_iff: "is_str x \<longleftrightarrow> (\<exists>t. x = Some (JStr t))"
  by (cases x rule: is_str.cases) simp_all

lemma wf_entry_fields:
  assumes "wf_entry e"
  shows "py_getitem e ''ts'' = Inr (field ''ts'' e)"
    and "py_getitem e ''role'' = Inr (field ''role'' e)"
    and "py_getitem e ''text'' = Inr (field ''text'' e)"
    and "\<exists>t. field ''ts'' e = JStr t"
    and "\<exists>t. field ''text'' e = JStr t"
  using assms by (cases e; auto simp: is_str_iff split: option.splits)+

lemma first_user_text_wf:
  "list_all wf_entry ms \<Longrightarrow>
   first_user_text ms =
     Inr (map_option (field ''text'') (find (\<lambda>e. field ''role'' e = JStr ''user'') ms))"
  by (induction ms) (simp_all add: wf_entry_fields)

lemma wf_journal_cases:
  assumes "wf_journal j"
  obtains kvs ms where "j = JObj kvs" "map_of kvs ''messages'' = Some (JArr ms)"
    "list_all wf_entry ms"
    "map_of kvs ''thread_id'' = Some JNull \<or> (\<exists>t. map_of kvs ''thread_id'' = Some (JStr t))"
  using assms by (cases j) (auto split: option.splits json.splits)

lemma wf_journal_thread_id:
  "wf_journal j \<Longrightarrow> journal_thread_id j = JNull \<or> (\<exists>t. journal_thread_id j = JStr t)"
  by (erule wf_journal_cases) (auto simp: journal_thread_id_def)

lemma thread_label_wf:
  assumes "wf_journal j"
  shows "thread_label j =
           Inr (if listed j then Some (journal_thread_id j, first_user_label j) else None)"
  using assms
proof (rule wf_journal_cases)
  fix kvs ms
  assume j: "j = JObj kvs" and m: "map_of kvs ''messages'' = Some (JArr ms)"
    and w: "list_all wf_entry ms"
    and t: "map_of kvs ''thread_id'' = Some JNull \<or> (\<exists>t. map_of kvs ''thread_id'' = Some (JStr t))"
  show ?thesis
    using t
    by (auto simp: j m thread_label_def listed_def journal_thread_id_def journal_messages_def
          first_user_label_def first_user_text_wf [OF w] split: option.splits)
qed

lemma saved_item_wf:
  assumes "wf_journal j"
  shows "saved_item n j = Inr (if truthy (journal_thread_id j) then Some (item_of n j) else None)"
  using assms
proof (rule wf_journal_cases)
  fix kvs ms
  assume j: "j = JObj kvs" and m: "map_of kvs ''messages'' = Some (JArr ms)"
    and w: "list_all wf_entry ms"
    and t: "map_of kvs ''thread_id'' = Some JNull \<or> (\<exists>t. map_of kvs ''thread_id'' = Some (JStr t))"
  show ?thesis
  proof (cases "ms = []")
    case True
    then show ?thesis
      using t by (auto simp: j m saved_item_def item_of_def journal_thread_id_def journal_messages_def)
  next
    case False
    then have h: "wf_entry (hd ms)" and l: "wf_entry (last ms)"
      using w by (simp_all add: list_all_iff)
    obtain x where x: "field ''text'' (last ms) = JStr x"
      using wf_entry_fields(5) [OF l] by blast
    have f: "(case ms of [] \<Rightarrow> Inl IndexError | a # as \<Rightarrow> Inr a) = Inr (hd ms)"
      using False by (cases ms) simp_all
    show ?thesis
      using t False
      by (auto simp: j m saved_item_def item_of_def journal_thread_id_def journal_messages_def f
            wf_entry_fields [OF h] wf_entry_fields [OF l] x)
  qed
qed

lemma load_memory_wf:
  assumes "wf_store s" and "is_conversation_file n"
  shows "wf_journal (fst (load_memory n s))"
proof (cases "map_of (files s) n")
  case None
  then show ?thesis
    by (simp add: load_memory_def path_exists_def fresh_journal_def)
next
  case (Some c)
  then have "(n, c) \<in> set (files s)"
    by (rule map_of_SomeD)
  then have "wf_content c"
    using assms by (auto simp: wf_store_def list_all_iff)
  then show ?thesis
    using Some by (cases c) (simp_all add: load_memory_def path_exists_def fresh_journal_def)
qed

lemma glob_conversations_files: "n \<in> set (glob_conversations s) \<Longrightarrow> is_conversation_file n"
  by (simp add: glob_conversations_def)

lemma threads_loop_wf:
  assumes "\<forall>n \<in> set ns. wf_journal (fst (load_memory n s))"
  shows "threads_loop ns acc s =
           (Inr (foldl (\<lambda>a j. threads_set (journal_thread_id j) (first_user_label j) a) acc
                   (filter listed (map (\<lambda>n. fst (load_memory n s)) ns))), s)"
  using assms
proof (induction ns arbitrary: acc)
  case Nil
  then show ?case by simp
next
  case (Cons n ns)
  have w: "wf_journal (fst (load_memory n s))"
    using Cons.prems by simp
  have h: "hashable (journal_thread_id (fst (load_memory n s)))"
    using wf_journal_thread_id [OF w] by auto
  show ?case
    using Cons h by (simp add: split_beta thread_label_wf [OF w])
qed

lemma saved_items_loop_wf:
  assumes "\<forall>n \<in> set ns. wf_journal (fst (load_memory n s))"
  shows "saved_items_loop ns acc s =
           (Inr (acc @ map (\<lambda>n. item_of n (fst (load_memory n s)))
                         (filter (\<lambda>n. truthy (journal_thread_id (fst (load_memory n s)))) ns)), s)"
  using assms
proof (induction ns arbitrary: acc)
  case Nil
  then show ?case by simp
next
  case (Cons n ns)
  have w: "wf_journal (fst (load_memory n s))"
    using Cons.prems by simp
  show ?case
    using Cons by (simp add: split_beta saved_item_wf [OF w])
qed

lemma py_key_eq_str: "py_key_eq (JStr a) k \<longleftrightarrow> k = JStr a"
  by (cases k) (auto simp: py_key_eq_def)

lemma threads_set_new:
  assumes "\<forall>kv \<in> set acc. \<exists>t. fst kv = JStr t" and "k \<notin> fst ` set acc"
  shows "threads_set k v acc = acc @ [(k, v)]"
  using assms by (induction acc) (auto simp: py_key_eq_str)

lemma foldl_threads_set_distinct:
  assumes "\<forall>kv \<in> set acc. \<exists>t. fst kv = JStr t"
      and "\<forall>j \<in> set js. \<exists>t. f j = JStr t"
      and "distinct (map fst acc @ map f js)"
  shows "foldl (\<lambda>a j. threads_set (f j) (g j) a) acc js = acc @ map (\<lambda>j. (f j, g j)) js"
  using assms
proof (induction js arbitrary: acc)
  case Nil
  then show ?case by simp
next
  case (Cons j js)
  have new: "threads_set (f j) (g j) acc = acc @ [(f j, g j)]"
    using Cons.prems by (intro threads_set_new) auto
  have "foldl (\<lambda>a j. threads_set (f j) (g j) a) (acc @ [(f j, g j)]) js =
          (acc @ [(f j, g j)]) @ map (\<lambda>j. (f j, g j)) js"
    using Cons.prems by (intro Cons.IH) auto
  then show ?case
    by (simp add: new)
qed

lemma string_key_item_of:
  assumes "wf_journal j"
  shows "string_key (item_of n j) \<noteq> None"
  using assms
proof (rule wf_journal_cases)
  fix kvs ms
  assume j: "j = JObj kvs" and m: "map_of kvs ''messages'' = Some (JArr ms)"
    and w: "list_all wf_entry ms"
  show ?thesis
  proof (cases "ms = []")
    case True
    then show ?thesis
      by (simp add: string_key_def item_of_def journal_messages_def j m)
  next
    case False
    then have "wf_entry (hd ms)"
      using w by (simp add: list_all_iff)
    then obtain t where "field ''ts'' (hd ms) = JStr t"
      using wf_entry_fields(4) by blast
    then show ?thesis
      using False by (simp add: string_key_def item_of_def journal_messages_def j m)
  qed
qed

lemma sort_items_strings:
  assumes "\<forall>it \<in> set items. string_key it \<noteq> None"
  shows "\<exists>sorted. sort_items items = Inr sorted \<and> set sorted = set items \<and>
           length sorted = length items"
  using assms by (auto simp: sort_items_def list_all_iff)

section \<open>Properties of the journal store\<close>

text \<open>
  C1. Starting from a location with no file, a load after \<open>N\<close> appends returns a journal
  whose messages are the entries of the \<open>N\<close> calls in call order (client_python, client_v2),
  or the last \<open>min N 20\<close> of them in call order (the Streamlit app, which trims to 20), and
  each stored entry carries the role, text and message id passed to its call.
\<close>

theorem append_then_load:
  assumes "dir_exists s" and "\<not> path_exists s p"
  shows "fst (appends p cs s) = Inr () \<and>
         fst (load_memory p (snd (appends p cs s))) =
           JObj [(''thread_id'', JNull), (''messages'', JArr (map entry_of cs))] \<and>
         length (map entry_of cs) = length cs \<and>
         fst (appends_trim p cs s) = Inr () \<and>
         fst (load_memory p (snd (appends_trim p cs s))) =
           JObj [(''thread_id'', JNull), (''messages'', JArr (last_n 20 (map entry_of_trim cs)))] \<and>
         length (last_n 20 (map entry_of_trim cs)) = min (length cs) 20 \<and>
         (\<forall>c. py_getitem (entry_of c) ''role'' = Inr (JStr (a_role c)) \<and>
              py_getitem (entry_of c) ''text'' = Inr (JStr (a_text c)) \<and>
              py_getitem (entry_of c) ''message_id'' =
                Inr (case a_message_id c of None \<Rightarrow> JNull | Some m \<Rightarrow> JStr m) \<and>
              py_getitem (entry_of_trim c) ''role'' = Inr (JStr (a_role c)) \<and>
              py_getitem (entry_of_trim c) ''text'' = Inr (JStr (a_text c)) \<and>
              py_getitem (entry_of_trim c) ''message_id'' =
                Inr (case a_message_id c of None \<Rightarrow> JNull | Some m \<Rightarrow> JStr m))"
proof -
  obtain fl where s: "s = Dir fl"
    using assms(1) by (cases s) simp_all
  let ?kvs = "[(''thread_id'', JNull), (''messages'', JArr [])]"
  have ld: "fst (load_memory p (Dir fl)) = JObj ?kvs"
    using assms(2) by (simp add: s load_memory_def fresh_journal_def)
  have ms: "map_of ?kvs ''messages'' = Some (JArr [])"
    by simp
  have plain: "fst (appends p cs s) = Inr () \<and>
         fst (load_memory p (snd (appends p cs s))) =
           JObj [(''thread_id'', JNull), (''messages'', JArr (map entry_of cs))]"
    using appends_run [OF ld ms, of cs] by (simp add: s)
  have "last_n 20 (map entry_of_trim cs) = (if cs = [] then [] else last_n 20 (map entry_of_trim cs))"
    by (simp add: last_n_def)
  then have trim: "fst (appends_trim p cs s) = Inr () \<and>
         fst (load_memory p (snd (appends_trim p cs s))) =
           JObj [(''thread_id'', JNull), (''messages'', JArr (last_n 20 (map entry_of_trim cs)))]"
    using appends_trim_run [OF ld ms, of cs] by (cases "cs = []") (simp_all add: s last_n_def)
  have fields: "\<forall>c. py_getitem (entry_of c) ''role'' = Inr (JStr (a_role c)) \<and>
              py_getitem (entry_of c) ''text'' = Inr (JStr (a_text c)) \<and>
              py_getitem (entry_of c) ''message_id'' =
                Inr (case a_message_id c of None \<Rightarrow> JNull | Some m \<Rightarrow> JStr m) \<and>
              py_getitem (entry_of_trim c) ''role'' = Inr (JStr (a_role c)) \<and>
              py_getitem (entry_of_trim c) ''text'' = Inr (JStr (a_text c)) \<and>
              py_getitem (entry_of_trim c) ''message_id'' =
                Inr (case a_message_id c of None \<Rightarrow> JNull | Some m \<Rightarrow> JStr m)"
    by (simp add: entry_of_def entry_of_trim_def entry_def)
  from plain trim fields show ?thesis
    by (simp add: length_last_n)
qed

text \<open>
  The scenario of two appends, \<open>(user, Hello, m1)\<close> then \<open>(assistant, Hi there, m2)\<close>, to a
  new location.
\<close>

theorem append_then_load_witness:
  "dir_exists (Dir []) \<and> \<not> path_exists (Dir []) ''conversation_t1.json'' \<and>
   fst (load_memory ''conversation_t1.json''
         (snd (appends ''conversation_t1.json''
                 [\<lparr>a_role = ''user'', a_text = ''Hello'', a_message_id = Some ''m1'', a_now = ''T1''\<rparr>,
                  \<lparr>a_role = ''assistant'', a_text = ''Hi there'', a_message_id = Some ''m2'',
                    a_now = ''T2''\<rparr>]
                 (Dir [])))) =
     JObj [(''thread_id'', JNull),
           (''messages'',
            JArr [JObj [(''ts'', JStr ''T1Z''), (''role'', JStr ''user''), (''text'', JStr ''Hello''),
                        (''message_id'', JStr ''m1'')],
                  JObj [(''ts'', JStr ''T2Z''), (''role'', JStr ''assistant''),
                        (''text'', JStr ''Hi there''), (''message_id'', JStr ''m2'')]])]"
proof -
  have h1: "dir_exists (Dir [])" by simp
  have h2: "\<not> path_exists (Dir []) ''conversation_t1.json''" by (simp add: path_exists_def)
  show ?thesis
    using h1 h2 append_then_load [OF h1 h2,
      of "[\<lparr>a_role = ''user'', a_text = ''Hello'', a_message_id = Some ''m1'', a_now = ''T1''\<rparr>,
           \<lparr>a_role = ''assistant'', a_text = ''Hi there'', a_message_id = Some ''m2'',
             a_now = ''T2''\<rparr>]"]
    by (simp add: entry_of_def entry_def)
qed

text \<open>
  C2 as stated fails: a file that holds valid JSON which is not a journal (here a list) is
  returned as it is, not replaced by the fresh empty journal.
\<close>

theorem load_memory_counterexample:
  "fst (load_memory ''conversation_t1.json''
         (Dir [(''conversation_t1.json'', Parses (JArr [JStr ''not a journal'']))])) =
     JArr [JStr ''not a journal''] \<and>
   JArr [JStr ''not a journal''] \<noteq> fresh_journal"
  by (simp add: load_memory_def path_exists_def fresh_journal_def)

text \<open>
  C2, amended. If there is no file at the location, or the file cannot be opened, decoded or
  parsed as JSON, load returns the fresh empty journal; a file that holds valid JSON of any
  shape is returned as parsed, with no check of the journal structure. In every case load
  returns a value and leaves the file system as it is.
\<close>

theorem load_memory_cases:
  "(\<not> path_exists s p \<longrightarrow> load_memory p s = (fresh_journal, s)) \<and>
   (map_of (files s) p = Some Unparsable \<longrightarrow> load_memory p s = (fresh_journal, s)) \<and>
   (map_of (files s) p = Some (Parses v) \<longrightarrow> load_memory p s = (v, s))"
  by (simp add: load_memory_def path_exists_def)

theorem load_memory_cases_witness:
  "load_memory ''conversation_t1.json'' NoDir = (fresh_journal, NoDir) \<and>
   load_memory ''conversation_t1.json'' (Dir [(''conversation_t1.json'', Unparsable)]) =
     (fresh_journal, Dir [(''conversation_t1.json'', Unparsable)]) \<and>
   load_memory ''conversation_t1.json''
       (Dir [(''conversation_t1.json'', Parses (JObj [(''thread_id'', JStr ''t1''), (''messages'', JArr [])]))]) =
     (JObj [(''thread_id'', JStr ''t1''), (''messages'', JArr [])],
      Dir [(''conversation_t1.json'', Parses (JObj [(''thread_id'', JStr ''t1''), (''messages'', JArr [])]))])"
proof -
  have a: "\<not> path_exists NoDir ''conversation_t1.json''"
    by (simp add: path_exists_def)
  have b: "map_of (files (Dir [(''conversation_t1.json'', Unparsable)])) ''conversation_t1.json''
             = Some Unparsable"
    by simp
  have c: "map_of (files (Dir [(''conversation_t1.json'',
               Parses (JObj [(''thread_id'', JStr ''t1''), (''messages'', JArr [])]))]))
             ''conversation_t1.json''
           = Some (Parses (JObj [(''thread_id'', JStr ''t1''), (''messages'', JArr [])]))"
    by simp
  show ?thesis
    using a b c
      load_memory_cases [of NoDir "''conversation_t1.json''" JNull]
      load_memory_cases [of "Dir [(''conversation_t1.json'', Unparsable)]" "''conversation_t1.json''" JNull]
      load_memory_cases [of "Dir [(''conversation_t1.json'',
               Parses (JObj [(''thread_id'', JStr ''t1''), (''messages'', JArr [])]))]"
          "''conversation_t1.json''" "JObj [(''thread_id'', JStr ''t1''), (''messages'', JArr [])]"]
    by simp
qed

text \<open>
  C3. With the trim to 20 of the Streamlit app, after any sequence of appends to a journal
  that held the entries \<open>old\<close> (one append at least, or at most 20 entries to begin with, as
  in a journal this variant has written or a new one), the stored messages are the last 20
  of \<open>old\<close> followed by the appended entries: at most 20, a suffix in the original order,
  the oldest dropped first, and exactly the 20 most recently appended entries once 20 have
  been appended.
\<close>

theorem trim_keeps_last_20:
  assumes "dir_exists s"
      and "fst (load_memory p s) = JObj kvs"
      and "map_of kvs ''messages'' = Some (JArr old)"
      and "cs \<noteq> [] \<or> length old \<le> 20"
  shows "fst (appends_trim p cs s) = Inr () \<and>
         fst (load_memory p (snd (appends_trim p cs s))) =
           JObj (AList.update ''messages''
                   (JArr (drop (length (old @ map entry_of_trim cs) - 20) (old @ map entry_of_trim cs)))
                   kvs) \<and>
         length (drop (length (old @ map entry_of_trim cs) - 20) (old @ map entry_of_trim cs)) \<le> 20 \<and>
         (20 \<le> length cs \<longrightarrow>
            drop (length (old @ map entry_of_trim cs) - 20) (old @ map entry_of_trim cs) =
            map entry_of_trim (drop (length cs - 20) cs))"
proof -
  obtain fl where s: "s = Dir fl"
    using assms(1) by (cases s) simp_all
  have run: "fst (appends_trim p cs s) = Inr () \<and>
         fst (load_memory p (snd (appends_trim p cs s))) =
           JObj (AList.update ''messages'' (JArr (last_n 20 (old @ map entry_of_trim cs))) kvs)"
    using appends_trim_run [of p fl kvs old cs] assms by (auto simp: s last_n_def)
  have long: "20 \<le> length cs \<longrightarrow>
            last_n 20 (old @ map entry_of_trim cs) = map entry_of_trim (drop (length cs - 20) cs)"
    by (simp add: last_n_def drop_map)
  have len: "length (last_n 20 (old @ map entry_of_trim cs)) \<le> 20"
    by (simp add: length_last_n)
  from run long len show ?thesis
    unfolding last_n_def by blast
qed

theorem trim_keeps_last_20_witness:
  "dir_exists (Dir []) \<and>
   fst (load_memory ''conversation_t1.json'' (Dir [])) =
     JObj [(''thread_id'', JNull), (''messages'', JArr [])] \<and>
   map (\<lambda>n. \<lparr>a_role = ''user'', a_text = replicate n CHR ''x'', a_message_id = None,
              a_now = ''T''\<rparr>) [0..<21] \<noteq> [] \<and>
   20 \<le> length (map (\<lambda>n. \<lparr>a_role = ''user'', a_text = replicate n CHR ''x'',
                            a_message_id = None, a_now = ''T''\<rparr>) [0..<21]) \<and>
   fst (load_memory ''conversation_t1.json''
         (snd (appends_trim ''conversation_t1.json''
                (map (\<lambda>n. \<lparr>a_role = ''user'', a_text = replicate n CHR ''x'',
                           a_message_id = None, a_now = ''T''\<rparr>) [0..<21])
                (Dir [])))) =
     JObj [(''thread_id'', JNull),
           (''messages'',
            JArr (map (\<lambda>n. entry ''T'' ''user'' (replicate n CHR ''x'') None) [1..<21]))]"
proof -
  let ?cs = "map (\<lambda>n. \<lparr>a_role = ''user'', a_text = replicate n CHR ''x'', a_message_id = None,
              a_now = ''T''\<rparr>) [0..<21]"
  have h1: "dir_exists (Dir [])" by simp
  have h2: "fst (load_memory ''conversation_t1.json'' (Dir [])) =
     JObj [(''thread_id'', JNull), (''messages'', JArr [])]"
    by (simp add: load_memory_def path_exists_def fresh_journal_def)
  have h3: "map_of [(''thread_id'', JNull), (''messages'', JArr [])] ''messages'' = Some (JArr [])"
    by simp
  have h4: "?cs \<noteq> []" by simp
  have h5: "20 \<le> length ?cs" by simp
  have d: "drop (length ?cs - 20) ?cs =
             map (\<lambda>n. \<lparr>a_role = ''user'', a_text = replicate n CHR ''x'', a_message_id = None,
              a_now = ''T''\<rparr>) [1..<21]"
    by (simp add: drop_map drop_upt)
  show ?thesis
    using h1 h2 h4 h5 trim_keeps_last_20 [OF h1 h2 h3 disjI1 [OF h4]] d
    by (simp add: entry_of_trim_def comp_def)
qed

text \<open>
  C4 as stated fails: an append whose write fails after the file was opened leaves the file
  unparsable, and the entry stored before is lost.
\<close>

theorem append_write_failure_counterexample:
  "append_memory ''conversation_t1.json'' ''assistant'' ''Hi there'' (Some ''m2'') ''T2''
     (FailsAfterOpen ''No space left on device'')
     (Dir [(''conversation_t1.json'',
            Parses (JObj [(''thread_id'', JStr ''t1''),
                          (''messages'', JArr [entry ''T1Z'' ''user'' ''Hello'' (Some ''m1'')])]))]) =
     (Inl (OSError ''No space left on device''), Dir [(''conversation_t1.json'', Unparsable)]) \<and>
   fst (load_memory ''conversation_t1.json'' (Dir [(''conversation_t1.json'', Unparsable)])) =
     JObj [(''thread_id'', JNull), (''messages'', JArr [])]"
  by (simp add: append_memory_def load_memory_def path_exists_def with_appended_def
        fresh_journal_def entry_def)

text \<open>
  C4, amended. An append whose write completes replaces the file by the whole new journal.
  The write is not atomic: the file is truncated when it is opened, so a write that fails
  after the open raises to the caller and leaves an unparsable file in place of the previous
  content, and a later load returns the fresh empty journal. An append that raises before
  the file is opened leaves the file system unchanged.
\<close>

theorem append_write_outcomes:
  assumes "py_setdefault (fst (load_memory p (Dir fl))) ''messages'' (JArr []) = Inr (JObj kvs)"
      and "map_of kvs ''messages'' = Some (JArr old)"
  shows "append_memory p r t m now Completes (Dir fl) =
           (Inr (), Dir (AList.update p
              (Parses (JObj (AList.update ''messages'' (JArr (old @ [entry (now @ ''Z'') r t m])) kvs)))
              fl)) \<and>
         append_memory p r t m now (FailsAfterOpen msg) (Dir fl) =
           (Inl (OSError msg), Dir (AList.update p Unparsable fl)) \<and>
         append_memory_trim p r t m now Completes (Dir fl) =
           (Inr (), Dir (AList.update p
              (Parses (JObj (AList.update ''messages'' (JArr (last_n 20 (old @ [entry now r t m]))) kvs)))
              fl)) \<and>
         append_memory_trim p r t m now (FailsAfterOpen msg) (Dir fl) =
           (Inl (OSError msg), Dir (AList.update p Unparsable fl)) \<and>
         fst (load_memory p (Dir (AList.update p Unparsable fl))) = fresh_journal \<and>
         (\<forall>s e io. with_appended (fst (load_memory p s)) (entry (now @ ''Z'') r t m) = Inl e \<longrightarrow>
              append_memory p r t m now io s = (Inl e, s)) \<and>
         (\<forall>s e io. with_appended_trim (fst (load_memory p s)) (entry now r t m) = Inl e \<longrightarrow>
              append_memory_trim p r t m now io s = (Inl e, s))"
proof -
  have a: "append_memory p r t m now (FailsAfterOpen msg) (Dir fl) =
           (Inl (OSError msg), Dir (AList.update p Unparsable fl))"
    using assms by (simp add: append_memory_def with_appended_dict split_beta)
  have b: "append_memory_trim p r t m now (FailsAfterOpen msg) (Dir fl) =
           (Inl (OSError msg), Dir (AList.update p Unparsable fl))"
    using assms by (simp add: append_memory_trim_def with_appended_trim_dict split_beta)
  have c: "fst (load_memory p (Dir (AList.update p Unparsable fl))) = fresh_journal"
    by (simp add: load_memory_def path_exists_def update_conv')
  have d: "\<forall>s e io. with_appended (fst (load_memory p s)) (entry (now @ ''Z'') r t m) = Inl e \<longrightarrow>
              append_memory p r t m now io s = (Inl e, s)"
    by (simp add: append_memory_def split_beta)
  have e: "\<forall>s e io. with_appended_trim (fst (load_memory p s)) (entry now r t m) = Inl e \<longrightarrow>
              append_memory_trim p r t m now io s = (Inl e, s)"
    by (simp add: append_memory_trim_def split_beta)
  from a b c d e append_memory_step [OF assms] append_memory_trim_step [OF assms]
  show ?thesis by blast
qed

theorem append_write_outcomes_witness:
  "py_setdefault (fst (load_memory ''conversation_t1.json''
       (Dir [(''conversation_t1.json'',
              Parses (JObj [(''thread_id'', JStr ''t1''),
                            (''messages'', JArr [entry ''T1Z'' ''user'' ''Hello'' (Some ''m1'')])]))])))
     ''messages'' (JArr []) =
     Inr (JObj [(''thread_id'', JStr ''t1''),
                (''messages'', JArr [entry ''T1Z'' ''user'' ''Hello'' (Some ''m1'')])]) \<and>
   append_memory ''conversation_t1.json'' ''assistant'' ''Hi there'' (Some ''m2'') ''T2'' Completes
       (Dir [(''conversation_t1.json'',
              Parses (JObj [(''thread_id'', JStr ''t1''),
                            (''messages'', JArr [entry ''T1Z'' ''user'' ''Hello'' (Some ''m1'')])]))]) =
     (Inr (),
      Dir [(''conversation_t1.json'',
            Parses (JObj [(''thread_id'', JStr ''t1''),
                          (''messages'', JArr [entry ''T1Z'' ''user'' ''Hello'' (Some ''m1''),
                                               entry ''T2Z'' ''assistant'' ''Hi there'' (Some ''m2'')])]))]) \<and>
   with_appended (fst (load_memory ''conversation_t1.json''
                        (Dir [(''conversation_t1.json'', Parses (JArr []))])))
     (entry ''T2Z'' ''assistant'' ''Hi there'' (Some ''m2'')) = Inl AttributeError \<and>
   append_memory ''conversation_t1.json'' ''assistant'' ''Hi there'' (Some ''m2'') ''T2''
       (FailsAfterOpen ''disk full'') (Dir [(''conversation_t1.json'', Parses (JArr []))]) =
     (Inl AttributeError, Dir [(''conversation_t1.json'', Parses (JArr []))])"
proof -
  let ?kvs = "[(''thread_id'', JStr ''t1''),
               (''messages'', JArr [entry ''T1Z'' ''user'' ''Hello'' (Some ''m1'')])]"
  let ?fl = "[(''conversation_t1.json'', Parses (JObj ?kvs))]"
  have h1: "py_setdefault (fst (load_memory ''conversation_t1.json'' (Dir ?fl))) ''messages'' (JArr [])
              = Inr (JObj ?kvs)"
    by (simp add: load_memory_def path_exists_def)
  have h2: "map_of ?kvs ''messages'' = Some (JArr [entry ''T1Z'' ''user'' ''Hello'' (Some ''m1'')])"
    by simp
  have h3: "with_appended (fst (load_memory ''conversation_t1.json''
                        (Dir [(''conversation_t1.json'', Parses (JArr []))])))
     (entry ''T2Z'' ''assistant'' ''Hi there'' (Some ''m2'')) = Inl AttributeError"
    by (simp add: load_memory_def path_exists_def with_appended_def)
  have th: "append_memory ''conversation_t1.json'' ''assistant'' ''Hi there'' (Some ''m2'') ''T2''
              Completes (Dir ?fl) =
            (Inr (), Dir (AList.update ''conversation_t1.json''
              (Parses (JObj (AList.update ''messages''
                 (JArr ([entry ''T1Z'' ''user'' ''Hello'' (Some ''m1'')] @
                        [entry (''T2'' @ ''Z'') ''assistant'' ''Hi there'' (Some ''m2'')])) ?kvs))) ?fl))"
    and th2: "\<forall>s e io. with_appended (fst (load_memory ''conversation_t1.json'' s))
                 (entry (''T2'' @ ''Z'') ''assistant'' ''Hi there'' (Some ''m2'')) = Inl e \<longrightarrow>
              append_memory ''conversation_t1.json'' ''assistant'' ''Hi there'' (Some ''m2'') ''T2'' io s
                = (Inl e, s)"
    using append_write_outcomes [OF h1 h2, of "''assistant''" "''Hi there''" "Some ''m2''" "''T2''"]
    by blast+
  have e: "append_memory ''conversation_t1.json'' ''assistant'' ''Hi there'' (Some ''m2'') ''T2''
       (FailsAfterOpen ''disk full'') (Dir [(''conversation_t1.json'', Parses (JArr []))]) =
     (Inl AttributeError, Dir [(''conversation_t1.json'', Parses (JArr []))])"
    using th2 h3 by simp
  show ?thesis
    using h1 h3 e th by simp
qed



text \<open>
  C8 as stated fails: the append of the Streamlit app, on a journal that holds 20 entries,
  stores the new entry and drops the oldest one.
\<close>

theorem append_only_counterexample:
  "fst (load_memory ''conversation_t1.json''
     (snd (append_memory_trim ''conversation_t1.json'' ''user'' ''new'' None ''T'' Completes
        (Dir [(''conversation_t1.json'',
               Parses (JObj [(''thread_id'', JNull),
                 (''messages'',
                  JArr (map (\<lambda>n. entry ''T'' ''user'' (replicate n CHR ''x'') None) [0..<20]))]))])))) =
     JObj [(''thread_id'', JNull),
           (''messages'',
            JArr (map (\<lambda>n. entry ''T'' ''user'' (replicate n CHR ''x'') None) [1..<20] @
                  [entry ''T'' ''user'' ''new'' None]))] \<and>
   map (\<lambda>n. entry ''T'' ''user'' (replicate n CHR ''x'') None) [1..<20] @
     [entry ''T'' ''user'' ''new'' None] \<noteq>
   map (\<lambda>n. entry ''T'' ''user'' (replicate n CHR ''x'') None) [0..<20] @
     [entry ''T'' ''user'' ''new'' None]"
proof -
  let ?old = "map (\<lambda>n. entry ''T'' ''user'' (replicate n CHR ''x'') None) [0..<20]"
  let ?kvs = "[(''thread_id'', JNull), (''messages'', JArr ?old)]"
  let ?fl = "[(''conversation_t1.json'', Parses (JObj ?kvs))]"
  have ld: "py_setdefault (fst (load_memory ''conversation_t1.json'' (Dir ?fl))) ''messages'' (JArr [])
              = Inr (JObj ?kvs)"
    by (simp add: load_memory_def path_exists_def)
  have ms: "map_of ?kvs ''messages'' = Some (JArr ?old)"
    by simp
  have dr: "last_n 20 (?old @ [entry ''T'' ''user'' ''new'' None]) =
              map (\<lambda>n. entry ''T'' ''user'' (replicate n CHR ''x'') None) [1..<20] @
                [entry ''T'' ''user'' ''new'' None]"
    by (simp add: last_n_def drop_map drop_upt)
  have ne: "length (map (\<lambda>n. entry ''T'' ''user'' (replicate n CHR ''x'') None) [1..<20] @
     [entry ''T'' ''user'' ''new'' None]) \<noteq> length (?old @ [entry ''T'' ''user'' ''new'' None])"
    by simp
  have ne': "map (\<lambda>n. entry ''T'' ''user'' (replicate n CHR ''x'') None) [1..<20] @
     [entry ''T'' ''user'' ''new'' None] \<noteq> ?old @ [entry ''T'' ''user'' ''new'' None]"
    using ne by metis
  show ?thesis
    using ne' by (simp only: append_memory_trim_step [OF ld ms] snd_conv load_after_write dr)
       (simp add: load_memory_def path_exists_def)
qed

text \<open>
  C8, amended. An append without trimming (client_python, client_v2) stores the existing
  entries unchanged and in order, followed by the one new entry. The append of the Streamlit
  app stores the last 19 of the existing entries (all of them when there are fewer),
  unchanged and in order, followed by the one new entry: the oldest entries are dropped.
  No operation reorders, deduplicates or rewrites stored entries: stamping the thread id
  keeps the messages value, and a delete leaves the file alone or removes it whole.
\<close>

theorem journal_append_only:
  assumes "py_setdefault (fst (load_memory p (Dir fl))) ''messages'' (JArr []) = Inr (JObj kvs)"
      and "map_of kvs ''messages'' = Some (JArr old)"
  shows "fst (load_memory p (snd (append_memory p r t m now Completes (Dir fl)))) =
           JObj (AList.update ''messages'' (JArr (old @ [entry (now @ ''Z'') r t m])) kvs) \<and>
         fst (load_memory p (snd (append_memory_trim p r t m now Completes (Dir fl)))) =
           JObj (AList.update ''messages''
                   (JArr (drop (length old - 19) old @ [entry now r t m])) kvs) \<and>
         (\<forall>tid. py_getitem (fst (load_memory (conversation_file tid)
                    (snd (set_thread_id tid Completes (Dir fl))))) ''messages'' =
                py_getitem (fst (load_memory (conversation_file tid) (Dir fl))) ''messages'') \<and>
         (\<forall>tid uo ss.
            fst (snd (snd (delete_thread tid uo (Dir fl, ss)))) = Dir fl \<or>
            fst (snd (snd (delete_thread tid uo (Dir fl, ss)))) =
              Dir (AList.delete (conversation_file tid) fl))"
proof -
  have a: "fst (load_memory p (snd (append_memory p r t m now Completes (Dir fl)))) =
           JObj (AList.update ''messages'' (JArr (old @ [entry (now @ ''Z'') r t m])) kvs)"
    by (simp add: append_memory_step [OF assms] load_after_write)
  have "last_n 20 (old @ [entry now r t m]) = drop (length old - 19) old @ [entry now r t m]"
    by (simp add: last_n_def)
  then have b: "fst (load_memory p (snd (append_memory_trim p r t m now Completes (Dir fl)))) =
           JObj (AList.update ''messages''
                   (JArr (drop (length old - 19) old @ [entry now r t m])) kvs)"
    by (simp add: append_memory_trim_step [OF assms] load_after_write)
  have c: "\<forall>tid. py_getitem (fst (load_memory (conversation_file tid)
                    (snd (set_thread_id tid Completes (Dir fl))))) ''messages'' =
                py_getitem (fst (load_memory (conversation_file tid) (Dir fl))) ''messages''"
    by (simp add: set_thread_id_messages)
  have d: "\<forall>tid uo ss.
            fst (snd (snd (delete_thread tid uo (Dir fl, ss)))) = Dir fl \<or>
            fst (snd (snd (delete_thread tid uo (Dir fl, ss)))) =
              Dir (AList.delete (conversation_file tid) fl)"
    by (simp add: delete_thread_cases split: unlink_outcome.splits)
  from a b c d show ?thesis by blast
qed

theorem journal_append_only_witness:
  "py_setdefault (fst (load_memory ''conversation_t1.json''
       (Dir [(''conversation_t1.json'',
              Parses (JObj [(''thread_id'', JStr ''t1''),
                            (''messages'', JArr [entry ''T1'' ''user'' ''Hello'' (Some ''m1'')])]))])))
     ''messages'' (JArr []) =
     Inr (JObj [(''thread_id'', JStr ''t1''),
                (''messages'', JArr [entry ''T1'' ''user'' ''Hello'' (Some ''m1'')])]) \<and>
   fst (load_memory ''conversation_t1.json''
     (snd (append_memory_trim ''conversation_t1.json'' ''assistant'' ''Hi there'' (Some ''m2'') ''T2''
        Completes
        (Dir [(''conversation_t1.json'',
              Parses (JObj [(''thread_id'', JStr ''t1''),
                            (''messages'', JArr [entry ''T1'' ''user'' ''Hello'' (Some ''m1'')])]))])))) =
     JObj [(''thread_id'', JStr ''t1''),
           (''messages'', JArr [entry ''T1'' ''user'' ''Hello'' (Some ''m1''),
                                entry ''T2'' ''assistant'' ''Hi there'' (Some ''m2'')])]"
proof -
  let ?kvs = "[(''thread_id'', JStr ''t1''),
               (''messages'', JArr [entry ''T1'' ''user'' ''Hello'' (Some ''m1'')])]"
  let ?fl = "[(''conversation_t1.json'', Parses (JObj ?kvs))]"
  have h1: "py_setdefault (fst (load_memory ''conversation_t1.json'' (Dir ?fl))) ''messages'' (JArr [])
              = Inr (JObj ?kvs)"
    by (simp add: load_memory_def path_exists_def)
  have h2: "map_of ?kvs ''messages'' = Some (JArr [entry ''T1'' ''user'' ''Hello'' (Some ''m1'')])"
    by simp
  have th: "fst (load_memory ''conversation_t1.json''
              (snd (append_memory_trim ''conversation_t1.json'' ''assistant'' ''Hi there''
                      (Some ''m2'') ''T2'' Completes (Dir ?fl)))) =
           JObj (AList.update ''messages''
                   (JArr (drop (length [entry ''T1'' ''user'' ''Hello'' (Some ''m1'')] - 19)
                           [entry ''T1'' ''user'' ''Hello'' (Some ''m1'')] @
                          [entry ''T2'' ''assistant'' ''Hi there'' (Some ''m2'')])) ?kvs)"
    using journal_append_only [OF h1 h2, of "''assistant''" "''Hi there''" "Some ''m2''" "''T2''"]
    by blast
  show ?thesis
    using h1 th by simp
qed

text \<open>
  C9. Stamping the thread identifier rewrites the journal with the \<open>thread_id\<close> field set and
  everything else as loaded: the messages value read back is the one read before, and for a
  journal that is a dict every other field is kept too.
\<close>

theorem set_thread_id_keeps_messages:
  "py_getitem (fst (load_memory (conversation_file tid) (snd (set_thread_id tid Completes s))))
     ''messages'' =
   py_getitem (fst (load_memory (conversation_file tid) s)) ''messages'' \<and>
   (\<forall>kvs. fst (load_memory (conversation_file tid) s) = JObj kvs \<longrightarrow>
      fst (set_thread_id tid Completes s) = Inr () \<and>
      fst (load_memory (conversation_file tid) (snd (set_thread_id tid Completes s))) =
        JObj (AList.update ''thread_id'' (JStr tid) kvs))"
proof -
  have "\<forall>kvs. fst (load_memory (conversation_file tid) s) = JObj kvs \<longrightarrow>
      fst (set_thread_id tid Completes s) = Inr () \<and>
      fst (load_memory (conversation_file tid) (snd (set_thread_id tid Completes s))) =
        JObj (AList.update ''thread_id'' (JStr tid) kvs)"
    by (simp add: set_thread_id_dict load_after_write)
  then show ?thesis
    using set_thread_id_messages [of tid s] by blast
qed

theorem set_thread_id_keeps_messages_witness:
  "fst (load_memory (conversation_file ''t1'')
         (Dir [(conversation_file ''t1'',
                Parses (JObj [(''thread_id'', JNull),
                              (''messages'', JArr [entry ''T1Z'' ''user'' ''Hello'' (Some ''m1'')])]))])) =
     JObj [(''thread_id'', JNull),
           (''messages'', JArr [entry ''T1Z'' ''user'' ''Hello'' (Some ''m1'')])] \<and>
   fst (load_memory (conversation_file ''t1'')
         (snd (set_thread_id ''t1'' Completes
            (Dir [(conversation_file ''t1'',
                Parses (JObj [(''thread_id'', JNull),
                              (''messages'', JArr [entry ''T1Z'' ''user'' ''Hello'' (Some ''m1'')])]))])))) =
     JObj [(''thread_id'', JStr ''t1''),
           (''messages'', JArr [entry ''T1Z'' ''user'' ''Hello'' (Some ''m1'')])]"
proof -
  have h: "fst (load_memory (conversation_file ''t1'')
         (Dir [(conversation_file ''t1'',
                Parses (JObj [(''thread_id'', JNull),
                              (''messages'', JArr [entry ''T1Z'' ''user'' ''Hello'' (Some ''m1'')])]))])) =
     JObj [(''thread_id'', JNull),
           (''messages'', JArr [entry ''T1Z'' ''user'' ''Hello'' (Some ''m1'')])]"
    by (simp add: load_memory_def path_exists_def)
  show ?thesis
    using h set_thread_id_keeps_messages [of "''t1''"
      "Dir [(conversation_file ''t1'',
                Parses (JObj [(''thread_id'', JNull),
                              (''messages'', JArr [entry ''T1Z'' ''user'' ''Hello'' (Some ''m1'')])]))]"]
    by simp
qed

text \<open>
  C10. Loads and listings leave every journal file as it is: after any sequence of them the
  directory holds the same files with the same content, none created and none deleted. (A
  listing makes the memory directory itself when it is missing.)
\<close>

theorem reads_leave_files:
  "files (run_reads ops s) = files s \<and> snd (load_memory p s) = s \<and>
   files (snd (get_all_threads s)) = files s \<and> files (snd (list_saved_threads s)) = files s"
proof -
  have "files (run_reads ops s) = files s"
  proof (induction ops arbitrary: s)
    case Nil
    then show ?case by simp
  next
    case (Cons op ops)
    then show ?case
      by (cases op) (simp_all add: get_all_threads_snd list_saved_threads_snd)
  qed
  then show ?thesis
    by (simp add: get_all_threads_snd list_saved_threads_snd)
qed

section \<open>Properties of the thread directory\<close>

text \<open>
  C6 as stated fails. The listing of the command-line client includes a journal whose
  messages list is empty, and its items carry the last entry's role and text, not the first
  user entry's text; the listing of the Streamlit app holds one entry for two journals that
  carry the same thread id.
\<close>

theorem thread_listings_counterexample:
  "fst (list_saved_threads
     (Dir [(''conversation_t1.json'',
            Parses (JObj [(''thread_id'', JStr ''t1''),
                          (''messages'', JArr [entry ''T1Z'' ''user'' ''Hello'' (Some ''m1''),
                                               entry ''T2Z'' ''assistant'' ''Hi there'' (Some ''m2'')])])),
           (''conversation_t2.json'',
            Parses (JObj [(''thread_id'', JStr ''t2''), (''messages'', JArr [])]))])) =
     Inr [(JStr ''t1'', ''conversation_t1.json'', JStr ''T1Z'', JStr ''assistant'', JStr ''Hi there''),
          (JStr ''t2'', ''conversation_t2.json'', JNull, JNull, JNull)] \<and>
   fst (get_all_threads
     (Dir [(''conversation_a.json'',
            Parses (JObj [(''thread_id'', JStr ''t1''),
                          (''messages'', JArr [entry ''T1Z'' ''user'' ''Hello'' (Some ''m1'')])])),
           (''conversation_b.json'',
            Parses (JObj [(''thread_id'', JStr ''t1''),
                          (''messages'', JArr [entry ''T5Z'' ''user'' ''What is Azure?'' (Some ''m7'')])]))])) =
     Inr [(JStr ''t1'', JStr ''Hello'')]"
  by code_simp

text \<open>
  C6, amended. On a store whose conversation files are unparsable or hold journals as the
  program writes them: the listing of the Streamlit app is the dict obtained by assigning,
  for each journal that has a thread id and a non-empty messages list, in visiting order,
  the label (text of the first user entry, or \<open>Chat\<close>) to its thread id; journals with a
  null or empty thread id or an empty messages list are left out, and when the listed
  journals have pairwise distinct thread ids the listing holds exactly one entry per listed
  journal. The listing of the command-line client leaves out only the journals with a null
  or empty thread id: it holds exactly one item per other journal, also for an empty
  messages list, with the role of the last entry and a snippet of its text in place of a
  label.
\<close>

theorem thread_listings:
  assumes "wf_store s"
  shows "get_all_threads s =
           (Inr (foldl (\<lambda>a j. threads_set (journal_thread_id j) (first_user_label j) a) []
                   (filter listed
                      (map (\<lambda>n. fst (load_memory n s)) (rev (sort (glob_conversations s)))))),
            memory_dir s) \<and>
         (distinct (map journal_thread_id
                      (filter listed
                         (map (\<lambda>n. fst (load_memory n s)) (rev (sort (glob_conversations s)))))) \<longrightarrow>
          fst (get_all_threads s) =
            Inr (map (\<lambda>j. (journal_thread_id j, first_user_label j))
                   (filter listed
                      (map (\<lambda>n. fst (load_memory n s)) (rev (sort (glob_conversations s))))))) \<and>
         (\<exists>items. list_saved_threads s = (Inr items, memory_dir s) \<and>
            set items =
              set (map (\<lambda>n. item_of n (fst (load_memory n s)))
                     (filter (\<lambda>n. truthy (journal_thread_id (fst (load_memory n s))))
                        (glob_conversations s))) \<and>
            length items =
              length (filter (\<lambda>n. truthy (journal_thread_id (fst (load_memory n s))))
                        (glob_conversations s)))"
proof -
  let ?s0 = "memory_dir s"
  let ?names = "rev (sort (glob_conversations s))"
  let ?js = "filter listed (map (\<lambda>n. fst (load_memory n s)) ?names)"
  have g: "glob_conversations ?s0 = glob_conversations s"
    by (simp add: glob_conversations_def)
  have ld: "\<And>n. fst (load_memory n ?s0) = fst (load_memory n s)"
    by (rule load_memory_fst_files) simp
  have wf: "\<And>n. n \<in> set (glob_conversations s) \<Longrightarrow> wf_journal (fst (load_memory n ?s0))"
    using load_memory_wf [OF assms] glob_conversations_files by (simp add: ld)
  have w1: "\<forall>n \<in> set ?names. wf_journal (fst (load_memory n ?s0))"
    using wf by simp
  have a: "get_all_threads s =
           (Inr (foldl (\<lambda>a j. threads_set (journal_thread_id j) (first_user_label j) a) [] ?js),
            memory_dir s)"
    by (simp add: get_all_threads_def Let_def g threads_loop_wf [OF w1] ld)
  have str: "\<forall>j \<in> set ?js. \<exists>t. journal_thread_id j = JStr t"
  proof
    fix j assume j: "j \<in> set ?js"
    then obtain n where "n \<in> set (glob_conversations s)" "j = fst (load_memory n s)"
      by auto
    then have "wf_journal j"
      using wf ld by simp
    moreover have "truthy (journal_thread_id j)"
      using j by (simp add: listed_def)
    ultimately show "\<exists>t. journal_thread_id j = JStr t"
      using wf_journal_thread_id [of j] by auto
  qed
  have b: "distinct (map journal_thread_id ?js) \<longrightarrow>
          fst (get_all_threads s) =
            Inr (map (\<lambda>j. (journal_thread_id j, first_user_label j)) ?js)"
  proof
    assume d: "distinct (map journal_thread_id ?js)"
    have "foldl (\<lambda>a j. threads_set (journal_thread_id j) (first_user_label j) a) [] ?js =
            [] @ map (\<lambda>j. (journal_thread_id j, first_user_label j)) ?js"
      using str d by (intro foldl_threads_set_distinct) simp_all
    then show "fst (get_all_threads s) =
            Inr (map (\<lambda>j. (journal_thread_id j, first_user_label j)) ?js)"
      by (simp add: a)
  qed
  let ?ns = "filter (\<lambda>n. truthy (journal_thread_id (fst (load_memory n s)))) (glob_conversations s)"
  let ?items = "map (\<lambda>n. item_of n (fst (load_memory n s))) ?ns"
  have w2: "\<forall>n \<in> set (glob_conversations s). wf_journal (fst (load_memory n ?s0))"
    using wf by simp
  have loop: "saved_items_loop (glob_conversations ?s0) [] ?s0 = (Inr ?items, ?s0)"
    by (simp add: g saved_items_loop_wf [OF w2] ld)
  have keys: "\<forall>it \<in> set ?items. string_key it \<noteq> None"
  proof
    fix it assume "it \<in> set ?items"
    then obtain n where "n \<in> set (glob_conversations s)" "it = item_of n (fst (load_memory n s))"
      by auto
    then show "string_key it \<noteq> None"
      using wf [of n] string_key_item_of [of "fst (load_memory n s)" n] by (simp add: ld)
  qed
  obtain sorted where so: "sort_items ?items = Inr sorted" "set sorted = set ?items"
      "length sorted = length ?items"
    using sort_items_strings [OF keys] by blast
  have c: "\<exists>items. list_saved_threads s = (Inr items, memory_dir s) \<and>
            set items = set ?items \<and> length items = length ?ns"
    using so by (simp add: list_saved_threads_def Let_def loop)
  from a b c show ?thesis by blast
qed

theorem thread_listings_witness:
  "wf_store (Dir [(''conversation_t1.json'',
            Parses (JObj [(''thread_id'', JStr ''t1''),
                          (''messages'', JArr [entry ''T1Z'' ''user'' ''Hello'' (Some ''m1''),
                                               entry ''T2Z'' ''assistant'' ''Hi there'' (Some ''m2'')])])),
           (''conversation_t2.json'',
            Parses (JObj [(''thread_id'', JStr ''t2''),
                          (''messages'', JArr [entry ''T5Z'' ''user'' ''What is Azure?'' (Some ''m7'')])])),
           (''conversation_t3.json'',
            Parses (JObj [(''thread_id'', JNull),
                          (''messages'', JArr [entry ''T6'' ''user'' ''Unlisted'' (Some ''m8'')])]))]) \<and>
   fst (get_all_threads (Dir [(''conversation_t1.json'',
            Parses (JObj [(''thread_id'', JStr ''t1''),
                          (''messages'', JArr [entry ''T1Z'' ''user'' ''Hello'' (Some ''m1''),
                                               entry ''T2Z'' ''assistant'' ''Hi there'' (Some ''m2'')])])),
           (''conversation_t2.json'',
            Parses (JObj [(''thread_id'', JStr ''t2''),
                          (''messages'', JArr [entry ''T5Z'' ''user'' ''What is Azure?'' (Some ''m7'')])])),
           (''conversation_t3.json'',
            Parses (JObj [(''thread_id'', JNull),
                          (''messages'', JArr [entry ''T6'' ''user'' ''Unlisted'' (Some ''m8'')])]))])) =
     Inr [(JStr ''t2'', JStr ''What is Azure?''), (JStr ''t1'', JStr ''Hello'')]"
proof -
  let ?s = "Dir [(''conversation_t1.json'',
            Parses (JObj [(''thread_id'', JStr ''t1''),
                          (''messages'', JArr [entry ''T1Z'' ''user'' ''Hello'' (Some ''m1''),
                                               entry ''T2Z'' ''assistant'' ''Hi there'' (Some ''m2'')])])),
           (''conversation_t2.json'',
            Parses (JObj [(''thread_id'', JStr ''t2''),
                          (''messages'', JArr [entry ''T5Z'' ''user'' ''What is Azure?'' (Some ''m7'')])])),
           (''conversation_t3.json'',
            Parses (JObj [(''thread_id'', JNull),
                          (''messages'', JArr [entry ''T6'' ''user'' ''Unlisted'' (Some ''m8'')])]))]"
  let ?js = "filter listed (map (\<lambda>n. fst (load_memory n ?s)) (rev (sort (glob_conversations ?s))))"
  have h: "wf_store ?s"
    by code_simp
  have js: "?js = [JObj [(''thread_id'', JStr ''t2''),
                          (''messages'', JArr [entry ''T5Z'' ''user'' ''What is Azure?'' (Some ''m7'')])],
                   JObj [(''thread_id'', JStr ''t1''),
                          (''messages'', JArr [entry ''T1Z'' ''user'' ''Hello'' (Some ''m1''),
                                               entry ''T2Z'' ''assistant'' ''Hi there'' (Some ''m2'')])]]"
    by code_simp
  have d: "distinct (map journal_thread_id ?js)"
    unfolding js by code_simp
  have "fst (get_all_threads ?s) = Inr (map (\<lambda>j. (journal_thread_id j, first_user_label j)) ?js)"
    using thread_listings [OF h] d by blast
  also have "map (\<lambda>j. (journal_thread_id j, first_user_label j)) ?js =
      [(JStr ''t2'', JStr ''What is Azure?''), (JStr ''t1'', JStr ''Hello'')]"
    unfolding js by code_simp
  finally show ?thesis
    using h by blast
qed

section \<open>Behaviour of a turn whose run fails\<close>

text \<open>
  C5: the command-line client does not keep the claim. The run of a second turn fails and
  adds no message; the client prints the failure, then takes the newest assistant message
  of the thread, which is the reply to the first turn, and appends it as the assistant entry
  of this turn. The Streamlit app, at the same input, shows the error and leaves the user
  entry last.
\<close>

theorem cli_turn_failed_run:
  "cli_turn ''conversation_t1.json'' ''Second question''
     \<lparr>e_new_thread_id = ''t9'', e_user_msg_id = ''m3'',
       e_run = \<lparr>run_id = ''r2'', run_status = ''failed'', run_last_error = ''rate limit'',
                 run_new_messages = [], run_steps = []\<rparr>,
       e_now1 = ''T3'', e_now2 = ''T4'', e_io1 = Completes, e_io2 = Completes,
       e_agent_delete_error = None\<rparr>
     ([user_message ''m1'' ''Hello'',
       \<lparr>m_id = ''m2'', m_role = ''assistant'', m_text_messages = [''Hi there'']\<rparr>],
      Dir [(''conversation_t1.json'',
            Parses (JObj [(''thread_id'', JStr ''t1''),
                          (''messages'', JArr [entry ''T1Z'' ''user'' ''Hello'' (Some ''m1''),
                                               entry ''T2Z'' ''assistant'' ''Hi there'' (Some ''m2'')])]))]) =
   (Inr (),
    [''Run ID: r2'', ''Run completed with status: failed'', ''Run failed: rate limit''],
    [user_message ''m1'' ''Hello'',
     \<lparr>m_id = ''m2'', m_role = ''assistant'', m_text_messages = [''Hi there'']\<rparr>,
     user_message ''m3'' ''Second question''],
    Dir [(''conversation_t1.json'',
          Parses (JObj [(''thread_id'', JStr ''t1''),
                        (''messages'', JArr [entry ''T1Z'' ''user'' ''Hello'' (Some ''m1''),
                                             entry ''T2Z'' ''assistant'' ''Hi there'' (Some ''m2''),
                                             entry ''T3Z'' ''user'' ''Second question'' (Some ''m3''),
                                             entry ''T4Z'' ''assistant'' ''Hi there'' (Some ''m2'')])]))]) \<and>
   fst (snd (snd (snd (streamlit_turn ''Second question''
     \<lparr>e_new_thread_id = ''t9'', e_user_msg_id = ''m3'',
       e_run = \<lparr>run_id = ''r2'', run_status = ''failed'', run_last_error = ''rate limit'',
                 run_new_messages = [], run_steps = []\<rparr>,
       e_now1 = ''T3'', e_now2 = ''T4'', e_io1 = Completes, e_io2 = Completes,
       e_agent_delete_error = None\<rparr>
     ([user_message ''m1'' ''Hello'',
       \<lparr>m_id = ''m2'', m_role = ''assistant'', m_text_messages = [''Hi there'']\<rparr>],
      Dir [(''conversation_t1.json'',
            Parses (JObj [(''thread_id'', JStr ''t1''),
                          (''messages'', JArr [entry ''T1'' ''user'' ''Hello'' (Some ''m1''),
                                               entry ''T2'' ''assistant'' ''Hi there'' (Some ''m2'')])]))],
      \<lparr>ss_thread_id = Some ''t1'', ss_messages = [], ss_selected_chat = [],
        ss_log_messages = []\<rparr>))))) =
    Dir [(''conversation_t1.json'',
          Parses (JObj [(''thread_id'', JStr ''t1''),
                        (''messages'', JArr [entry ''T1'' ''user'' ''Hello'' (Some ''m1''),
                                             entry ''T2'' ''assistant'' ''Hi there'' (Some ''m2''),
                                             entry ''T3'' ''user'' ''Second question'' (Some ''m3'')])]))]"
  by code_simp

end
